theory Spec2Isabelle
  imports Main "HOL-Library.Word"
begin

unbundle bit_operations_syntax

section \<open>The per-interface IGMP state of the IPv4 endpoint (pkg/tcpip/network/ipv4/igmp.go)\<close>

text \<open>
  The development follows igmp.go function by function. The adapter's lock serialises
  every operation, so each locked method is one atomic function on the state. What
  igmp.go only imports (the header codec, the NIC, tcpip.Job, the generic multicast
  engine of package ip) is either a parameter of the function that calls it or a small
  definition written from the specification and marked as such.
\<close>

subsection \<open>Basic types\<close>

type_synonym byte = "8 word"

text \<open>An IPv4 address (tcpip.Address holding four bytes), read big-endian.\<close>
type_synonym address = "32 word"

text \<open>A link address: the six bytes of an Ethernet address, read big-endian.\<close>
type_synonym link_address = "48 word"

text \<open>time.Duration: a count of nanoseconds.\<close>
type_synonym duration = int

definition Millisecond :: duration where
  "Millisecond = 1000000"

definition Second :: duration where
  "Second = 1000 * Millisecond"

text \<open>The values of *tcpip.Error that occur here; \<open>None\<close> of the option type is nil.\<close>
datatype tcpip_error =
  ErrBadLocalAddress | ErrNoRoute | ErrNoBufferSpace | ErrClosedForSend | ErrInvalidEndpointState

text \<open>The only panic of igmp.go: "unrecognized igmp type = %d".\<close>
datatype panic = UnrecognizedIGMPType byte

subsection \<open>Constants of igmp.go\<close>

definition igmpV1PresentDefault :: "32 word" where
  "igmpV1PresentDefault = 0"

definition v1RouterPresentTimeout :: duration where
  "v1RouterPresentTimeout = 400 * Second"

definition v1MaxRespTime :: duration where
  "v1MaxRespTime = 10 * Second"

definition UnsolicitedReportIntervalMax :: duration where
  "UnsolicitedReportIntervalMax = 10 * Second"

subsection \<open>Package header: constants and the IGMP codec\<close>

text \<open>Modelled from the spec: the recognized IGMP types of section 4.1 (package header is
  not among the sources).\<close>
definition IGMPMembershipQuery :: byte where
  "IGMPMembershipQuery = 0x11"

text \<open>Modelled from the spec: type value of section 4.1.\<close>
definition IGMPv1MembershipReport :: byte where
  "IGMPv1MembershipReport = 0x12"

text \<open>Modelled from the spec: type value of section 4.1.\<close>
definition IGMPv2MembershipReport :: byte where
  "IGMPv2MembershipReport = 0x16"

text \<open>Modelled from the spec: type value of section 4.1.\<close>
definition IGMPLeaveGroup :: byte where
  "IGMPLeaveGroup = 0x17"

text \<open>Modelled from the spec: the IGMP message is 8 bytes (section 4.1), and a query or a
  report shorter than 8 bytes is invalid (section 4.3).\<close>
definition IGMPMinimumSize :: nat where
  "IGMPMinimumSize = 8"

text \<open>Modelled from the spec: see \<open>IGMPMinimumSize\<close>.\<close>
definition IGMPQueryMinimumSize :: nat where
  "IGMPQueryMinimumSize = 8"

text \<open>Modelled from the spec: see \<open>IGMPMinimumSize\<close>.\<close>
definition IGMPReportMinimumSize :: nat where
  "IGMPReportMinimumSize = 8"

text \<open>Modelled from the spec: AllSystems is 224.0.0.1 (section 3).\<close>
definition IPv4AllSystems :: address where
  "IPv4AllSystems = 0xE0000001"

text \<open>Modelled from the spec: AllRouters is written 224.0.2.0 in section 3 and in
  section 4.3; the constant's declaration is not among the sources.\<close>
definition IPv4AllRoutersGroup :: address where
  "IPv4AllRoutersGroup = 0xE0000200"

text \<open>Modelled from the spec: the unspecified address 0.0.0.0 (section 4.3).\<close>
definition IPv4Any :: address where
  "IPv4Any = 0"

text \<open>Modelled from the spec: protocol = 2 (section 4.3).\<close>
definition IGMPProtocolNumber :: byte where
  "IGMPProtocolNumber = 2"

text \<open>Modelled from the spec: TTL = 1 (section 4.3).\<close>
definition IGMPTTL :: byte where
  "IGMPTTL = 1"

text \<open>Modelled from the spec: TOS = default (section 4.3), the zero byte.\<close>
definition DefaultTOS :: byte where
  "DefaultTOS = 0"

text \<open>Modelled from the spec: ethType = IPv4 (section 6), EtherType 0x0800.\<close>
definition ProtocolNumber :: "16 word" where
  "ProtocolNumber = 0x0800"

text \<open>Modelled from the spec: byte 0 of the message is its type (section 4.1).\<close>
definition IGMP_Type :: "byte list \<Rightarrow> byte" where
  "IGMP_Type b = b ! 0"

text \<open>Modelled from the spec: byte 0 of the message is its type (section 4.1).\<close>
definition IGMP_SetType :: "byte \<Rightarrow> byte list \<Rightarrow> byte list" where
  "IGMP_SetType t b = b[0 := t]"

text \<open>Modelled from the spec: the max-response-time byte counts tenths of a second
  (section 4.1).\<close>
definition DecisecondToDuration :: "byte \<Rightarrow> duration" where
  "DecisecondToDuration ds = int (unat ds) * (100 * Millisecond)"

text \<open>Modelled from the spec: byte 1 is the max response time (section 4.1).\<close>
definition IGMP_MaxRespTime :: "byte list \<Rightarrow> duration" where
  "IGMP_MaxRespTime b = DecisecondToDuration (b ! 1)"

text \<open>Modelled from the spec: bytes 2-3 hold the checksum, big-endian (sections 4.1, 6).\<close>
definition IGMP_Checksum :: "byte list \<Rightarrow> 16 word" where
  "IGMP_Checksum b = push_bit 8 (ucast (b ! 2)) OR ucast (b ! 3)"

text \<open>Modelled from the spec: bytes 2-3 hold the checksum, big-endian (sections 4.1, 6).\<close>
definition IGMP_SetChecksum :: "16 word \<Rightarrow> byte list \<Rightarrow> byte list" where
  "IGMP_SetChecksum c b = b[2 := ucast (drop_bit 8 c), 3 := ucast c]"

text \<open>Modelled from the spec: bytes 4-7 hold the group address, big-endian (section 4.1).\<close>
definition IGMP_GroupAddress :: "byte list \<Rightarrow> address" where
  "IGMP_GroupAddress b =
     push_bit 24 (ucast (b ! 4)) OR push_bit 16 (ucast (b ! 5)) OR
     push_bit 8 (ucast (b ! 6)) OR ucast (b ! 7)"

text \<open>Modelled from the spec: bytes 4-7 hold the group address, big-endian (section 4.1).\<close>
definition IGMP_SetGroupAddress :: "address \<Rightarrow> byte list \<Rightarrow> byte list" where
  "IGMP_SetGroupAddress a b =
     b[4 := ucast (drop_bit 24 a), 5 := ucast (drop_bit 16 a),
       6 := ucast (drop_bit 8 a), 7 := ucast a]"

text \<open>Modelled from the spec: the sum of the buffer's big-endian 16-bit words, a trailing
  odd byte counting as the high byte of a last word (the ones-complement sum of
  section 4.1, before the carries are folded).\<close>
fun sum16 :: "byte list \<Rightarrow> nat" where
  "sum16 [] = 0"
| "sum16 [a] = 256 * unat a"
| "sum16 (a # b # rest) = 256 * unat a + unat b + sum16 rest"

text \<open>Modelled from the spec: the end-around carry of ones-complement addition, repeated
  until the value fits 16 bits.\<close>
function fold_carry :: "nat \<Rightarrow> nat" where
  "fold_carry n = (if n < 65536 then n else fold_carry (n mod 65536 + n div 65536))"
  by pat_completeness auto
termination
proof (relation "measure (\<lambda>n. n)")
  show "wf (measure (\<lambda>n::nat. n))"
    by simp
next
  fix n :: nat
  assume large: "\<not> n < 65536"
  define q where "q = n div 65536"
  define r where "r = n mod 65536"
  have n: "n = 65536 * q + r"
    unfolding q_def r_def by (rule mult_div_mod_eq [symmetric])
  have "q \<noteq> 0"
  proof
    assume "q = 0"
    with n have "n = r" by simp
    moreover have "r < 65536" unfolding r_def by simp
    ultimately show False using large by simp
  qed
  then have "r + q < 65536 * q + r" by simp
  then have "n mod 65536 + n div 65536 < n"
    using n unfolding q_def r_def by simp
  then show "(n mod 65536 + n div 65536, n) \<in> measure (\<lambda>n. n)"
    by simp
qed

declare fold_carry.simps [simp del]

text \<open>Modelled from the spec: header.ChecksumVV, the 16-bit ones-complement sum of a
  whole buffer, continued from an initial value (section 4.1).\<close>
definition ChecksumVV :: "byte list \<Rightarrow> 16 word \<Rightarrow> 16 word" where
  "ChecksumVV vv initial = of_nat (fold_carry (sum16 vv + unat initial))"

text \<open>Modelled from the spec: build computes the checksum over the final buffer with the
  checksum field counted as zero, so that verification succeeds (sections 4.1, 8).\<close>
definition IGMPCalculateChecksum :: "byte list \<Rightarrow> 16 word" where
  "IGMPCalculateChecksum h = NOT (ChecksumVV (IGMP_SetChecksum 0 h) 0)"

text \<open>Modelled from the spec: the multicast-mapped Ethernet address 01:00:5E followed by
  the low 23 bits of the IPv4 address (section 4.3).\<close>
definition EthernetAddressFromMulticastIPv4Address :: "address \<Rightarrow> link_address" where
  "EthernetAddressFromMulticastIPv4Address a = 0x01005E000000 OR ucast (a AND 0x7FFFFF)"

subsection \<open>Packets, the NIC and the statistics\<close>

record NetworkHeaderParams =
  Protocol :: byte
  TTL :: byte
  TOS :: byte

text \<open>What addIPHeader is asked to prepend.\<close>
record ip_header =
  SrcAddr :: address
  DstAddr :: address
  Params :: NetworkHeaderParams

record PacketBuffer =
  ReserveHeaderBytes :: nat
  Data :: "byte list"
  NetworkHeader :: "ip_header option"

text \<open>Modelled from the spec: addIPHeader(src, dst, pkt, params) prepends an IPv4 header
  with the given fields (section 6); the endpoint's own code is not among the sources.\<close>
definition addIPHeader :: "address \<Rightarrow> address \<Rightarrow> PacketBuffer \<Rightarrow> NetworkHeaderParams \<Rightarrow> PacketBuffer" where
  "addIPHeader localAddr dstAddr pkt params =
     pkt\<lparr>NetworkHeader := Some \<lparr>SrcAddr = localAddr, DstAddr = dstAddr, Params = params\<rparr>\<rparr>"

text \<open>One call of WritePacketToRemote: its arguments (gso is always nil) and its result.\<close>
record nic_write =
  remote :: link_address
  ethType :: "16 word"
  packet :: PacketBuffer
  result :: "tcpip_error option"

text \<open>The NIC as the adapter sees it: the calls made so far, oldest first, and what the
  link will answer to the coming writes (nil once the list is used up).\<close>
record nic =
  writes :: "nic_write list"
  answers :: "tcpip_error option list"

text \<open>Modelled from the spec: nic.WritePacketToRemote(ethDst, gso=nil, ethType, pkt)
  returns an error or nil (section 6); the driver decides which.\<close>
definition WritePacketToRemote :: "link_address \<Rightarrow> 16 word \<Rightarrow> PacketBuffer \<Rightarrow> nic \<Rightarrow> tcpip_error option \<times> nic" where
  "WritePacketToRemote r proto pkt n =
     (case answers n of
        [] \<Rightarrow> (None, n\<lparr>writes := writes n @ [\<lparr>remote = r, ethType = proto, packet = pkt, result = None\<rparr>]\<rparr>)
      | a # rest \<Rightarrow>
          (a, n\<lparr>writes := writes n @ [\<lparr>remote = r, ethType = proto, packet = pkt, result = a\<rparr>],
                answers := rest\<rparr>))"

text \<open>stats.IGMP.PacketsSent.\<close>
record PacketsSent =
  sent_V1MembershipReport :: nat
  sent_V2MembershipReport :: nat
  sent_LeaveGroup :: nat
  sent_Dropped :: nat

text \<open>stats.IGMP.PacketsReceived.\<close>
record PacketsReceived =
  received_MembershipQuery :: nat
  received_V1MembershipReport :: nat
  received_V2MembershipReport :: nat
  received_LeaveGroup :: nat
  received_Invalid :: nat
  received_ChecksumErrors :: nat
  received_Unrecognized :: nat

text \<open>What igmp.go reaches through igmp.ep: the endpoint's header reserve and enabled
  state, its NIC, and the stack's IGMP statistics.\<close>
record endpoint =
  MaxHeaderLength :: nat
  ep_Enabled :: bool
  ep_nic :: nic
  stats_PacketsSent :: PacketsSent
  stats_PacketsReceived :: PacketsReceived

subsection \<open>tcpip.Job\<close>

text \<open>Modelled from the spec: a cancellable scheduled job (sections 3, 5). It is either
  idle or scheduled to run its callback after a delay.\<close>
record Job =
  scheduled :: "duration option"

text \<open>Modelled from the spec: a new job is not scheduled.\<close>
definition NewJob :: Job where
  "NewJob = \<lparr>scheduled = None\<rparr>"

text \<open>Modelled from the spec: cancel is idempotent and leaves the job unscheduled
  (section 5).\<close>
definition Job_Cancel :: "Job \<Rightarrow> Job" where
  "Job_Cancel j = j\<lparr>scheduled := None\<rparr>"

text \<open>Modelled from the spec: scheduling arms the job for the given delay.\<close>
definition Job_Schedule :: "duration \<Rightarrow> Job \<Rightarrow> Job" where
  "Job_Schedule d j = j\<lparr>scheduled := Some d\<rparr>"

text \<open>The job is armed: scheduled and neither fired nor cancelled since.\<close>
definition Job_armed :: "Job \<Rightarrow> bool" where
  "Job_armed j = (scheduled j \<noteq> None)"

subsection \<open>igmpState\<close>

record IGMPOptions =
  Enabled :: bool

text \<open>The options igmp.init passes to the engine's Init (Rand, Clock and Protocol are
  handles to the stack and to the adapter itself).\<close>
record GenericMulticastProtocolOptions =
  gmp_Enabled :: bool
  gmp_MaxUnsolicitedReportDelay :: duration
  gmp_AllNodesAddress :: address

text \<open>The per-interface state; \<open>'e\<close> is the state of ip.GenericMulticastProtocolState.\<close>
record 'e igmpState =
  ep :: endpoint
  opts :: IGMPOptions
  igmpV1Present :: "32 word"
  mu_genericMulticastProtocol :: 'e
  mu_igmpV1Job :: Job

definition v1Present :: "'e igmpState \<Rightarrow> bool" where
  "v1Present igmp = (igmpV1Present igmp = 1)"

definition setV1Present :: "bool \<Rightarrow> 'e igmpState \<Rightarrow> 'e igmpState" where
  "setV1Present v igmp = (if v then igmp\<lparr>igmpV1Present := 1\<rparr> else igmp\<lparr>igmpV1Present := 0\<rparr>)"

subsection \<open>Transmit path\<close>

text \<open>The increment of the sent counter that ends writePacket; the default case panics.\<close>
definition count_sent :: "byte \<Rightarrow> PacketsSent \<Rightarrow> panic + PacketsSent" where
  "count_sent igmpType sent =
     (if igmpType = IGMPv1MembershipReport
        then Inr (sent\<lparr>sent_V1MembershipReport := sent_V1MembershipReport sent + 1\<rparr>)
      else if igmpType = IGMPv2MembershipReport
        then Inr (sent\<lparr>sent_V2MembershipReport := sent_V2MembershipReport sent + 1\<rparr>)
      else if igmpType = IGMPLeaveGroup
        then Inr (sent\<lparr>sent_LeaveGroup := sent_LeaveGroup sent + 1\<rparr>)
      else Inl (UnrecognizedIGMPType igmpType))"

definition writePacket :: "address \<Rightarrow> address \<Rightarrow> byte \<Rightarrow> 'e igmpState \<Rightarrow> panic + (tcpip_error option \<times> 'e igmpState)" where
  "writePacket destAddress groupAddress igmpType igmp =
     (let igmpData = replicate IGMPReportMinimumSize 0;
          igmpData = IGMP_SetType igmpType igmpData;
          igmpData = IGMP_SetGroupAddress groupAddress igmpData;
          igmpData = IGMP_SetChecksum (IGMPCalculateChecksum igmpData) igmpData;
          pkt = \<lparr>ReserveHeaderBytes = MaxHeaderLength (ep igmp), Data = igmpData, NetworkHeader = None\<rparr>;
          localAddr = IPv4Any;
          pkt = addIPHeader localAddr destAddress pkt
                  \<lparr>Protocol = IGMPProtocolNumber, TTL = IGMPTTL, TOS = DefaultTOS\<rparr>;
          (err, nic') = WritePacketToRemote (EthernetAddressFromMulticastIPv4Address destAddress)
                          ProtocolNumber pkt (ep_nic (ep igmp));
          igmp = igmp\<lparr>ep := (ep igmp)\<lparr>ep_nic := nic'\<rparr>\<rparr>;
          sent = stats_PacketsSent (ep igmp)
      in case err of
           Some e \<Rightarrow>
             Inr (Some e, igmp\<lparr>ep := (ep igmp)\<lparr>stats_PacketsSent := sent\<lparr>sent_Dropped := sent_Dropped sent + 1\<rparr>\<rparr>\<rparr>)
         | None \<Rightarrow>
             (case count_sent igmpType sent of
                Inl p \<Rightarrow> Inl p
              | Inr sent' \<Rightarrow> Inr (None, igmp\<lparr>ep := (ep igmp)\<lparr>stats_PacketsSent := sent'\<rparr>\<rparr>)))"

definition SendReport :: "address \<Rightarrow> 'e igmpState \<Rightarrow> panic + (tcpip_error option \<times> 'e igmpState)" where
  "SendReport groupAddress igmp =
     (let igmpType = IGMPv2MembershipReport;
          igmpType = (if v1Present igmp then IGMPv1MembershipReport else igmpType)
      in writePacket groupAddress groupAddress igmpType igmp)"

definition SendLeave :: "address \<Rightarrow> 'e igmpState \<Rightarrow> panic + (tcpip_error option \<times> 'e igmpState)" where
  "SendLeave groupAddress igmp =
     (if v1Present igmp then Inr (None, igmp)
      else writePacket IPv4AllRoutersGroup groupAddress IGMPLeaveGroup igmp)"

subsection \<open>The engine as seen from igmp.go\<close>

text \<open>
  ip.GenericMulticastProtocolState is not among the sources. It reaches the adapter only
  through the interface ip.MulticastGroupProtocol, that is through SendReport and
  SendLeave, whose results it may inspect. So a method of the engine is a computation
  of this type: it ends with a value, or it calls SendReport or SendLeave for a group
  and goes on with the error (or nil) that the call returned. The methods themselves
  are parameters of the adapter functions that call them; each takes the engine's state
  and ends with its result and the engine's new state.
\<close>
datatype 'a gmp =
  Done 'a
| CallSendReport address "tcpip_error option \<Rightarrow> 'a gmp"
| CallSendLeave address "tcpip_error option \<Rightarrow> 'a gmp"

text \<open>Running a computation of the engine against the adapter: every call goes to
  SendReport or SendLeave of this igmpState, and a panic there ends the run.\<close>
primrec run_gmp :: "'a gmp \<Rightarrow> 'e igmpState \<Rightarrow> panic + ('a \<times> 'e igmpState)" where
  "run_gmp (Done a) igmp = Inr (a, igmp)"
| "run_gmp (CallSendReport groupAddress k) igmp =
     (case SendReport groupAddress igmp of
        Inl p \<Rightarrow> Inl p
      | Inr (err, igmp') \<Rightarrow> run_gmp (k err) igmp')"
| "run_gmp (CallSendLeave groupAddress k) igmp =
     (case SendLeave groupAddress igmp of
        Inl p \<Rightarrow> Inl p
      | Inr (err, igmp') \<Rightarrow> run_gmp (k err) igmp')"

text \<open>igmp.mu.genericMulticastProtocol.M(...): run method \<open>m\<close> on the engine's state and
  store the state it ends with.\<close>
definition call_engine :: "('e \<Rightarrow> ('a \<times> 'e) gmp) \<Rightarrow> 'e igmpState \<Rightarrow> panic + ('a \<times> 'e igmpState)" where
  "call_engine m igmp =
     (case run_gmp (m (mu_genericMulticastProtocol igmp)) igmp of
        Inl p \<Rightarrow> Inl p
      | Inr ((a, e'), igmp') \<Rightarrow> Inr (a, igmp'\<lparr>mu_genericMulticastProtocol := e'\<rparr>))"

subsection \<open>init and the job's callback\<close>

definition init :: "(GenericMulticastProtocolOptions \<Rightarrow> 'e) \<Rightarrow> endpoint \<Rightarrow> IGMPOptions \<Rightarrow> 'e igmpState" where
  "init Init endp options =
     \<lparr>ep = endp,
      opts = options,
      igmpV1Present = igmpV1PresentDefault,
      mu_genericMulticastProtocol =
        Init \<lparr>gmp_Enabled = Enabled options,
              gmp_MaxUnsolicitedReportDelay = UnsolicitedReportIntervalMax,
              gmp_AllNodesAddress = IPv4AllSystems\<rparr>,
      mu_igmpV1Job = NewJob\<rparr>"

text \<open>Modelled from the spec: when the scheduled job fires, the scheduler takes the lock,
  runs the callback and the job is no longer scheduled; a job that is not scheduled does
  not fire (section 5). The callback is the one given to NewJob in init:
  \<^verbatim>\<open>func() { igmp.setV1Present(false) }\<close>.\<close>
definition igmpV1Job_fires :: "'e igmpState \<Rightarrow> 'e igmpState" where
  "igmpV1Job_fires igmp =
     (case scheduled (mu_igmpV1Job igmp) of
        None \<Rightarrow> igmp
      | Some d \<Rightarrow> setV1Present False (igmp\<lparr>mu_igmpV1Job := (mu_igmpV1Job igmp)\<lparr>scheduled := None\<rparr>\<rparr>))"

subsection \<open>Receive path\<close>

text \<open>One of the \<^verbatim>\<open>received.X.Increment()\<close> statements, \<open>f\<close> being the increment.\<close>
definition count_received :: "(PacketsReceived \<Rightarrow> PacketsReceived) \<Rightarrow> 'e igmpState \<Rightarrow> 'e igmpState" where
  "count_received f igmp =
     igmp\<lparr>ep := (ep igmp)\<lparr>stats_PacketsReceived := f (stats_PacketsReceived (ep igmp))\<rparr>\<rparr>"

definition handleMembershipQuery ::
  "(address \<Rightarrow> duration \<Rightarrow> 'e \<Rightarrow> (unit \<times> 'e) gmp) \<Rightarrow> address \<Rightarrow> duration \<Rightarrow> 'e igmpState
     \<Rightarrow> panic + (unit \<times> 'e igmpState)" where
  "handleMembershipQuery HandleQuery groupAddress maxRespTime igmp =
     (let (igmp, maxRespTime) =
            (if maxRespTime = 0 \<and> Enabled (opts igmp) then
               (let igmp = igmp\<lparr>mu_igmpV1Job := Job_Cancel (mu_igmpV1Job igmp)\<rparr>;
                    igmp = igmp\<lparr>mu_igmpV1Job := Job_Schedule v1RouterPresentTimeout (mu_igmpV1Job igmp)\<rparr>;
                    igmp = setV1Present True igmp
                in (igmp, v1MaxRespTime))
             else (igmp, maxRespTime))
      in call_engine (HandleQuery groupAddress maxRespTime) igmp)"

definition handleMembershipReport ::
  "(address \<Rightarrow> 'e \<Rightarrow> (unit \<times> 'e) gmp) \<Rightarrow> address \<Rightarrow> 'e igmpState \<Rightarrow> panic + (unit \<times> 'e igmpState)" where
  "handleMembershipReport HandleReport groupAddress igmp =
     call_engine (HandleReport groupAddress) igmp"

text \<open>Modelled from the spec: pulling up \<open>n\<close> bytes fails on a shorter packet and
  otherwise gives the first \<open>n\<close> bytes (section 4.3); the view it gives is a window
  on the packet's own bytes.\<close>
definition PullUp :: "nat \<Rightarrow> byte list \<Rightarrow> byte list option" where
  "PullUp n vv = (if length vv < n then None else Some (take n vv))"

text \<open>
  handleIGMP. The header view \<open>h\<close> shares its bytes with \<open>pkt.Data\<close>, so
  \<^verbatim>\<open>h.SetChecksum\<close> writes into the packet: \<open>zeroed\<close> and \<open>restored\<close> are the
  packet's data after the two calls, and the checksum is taken over the whole of
  \<open>pkt.Data\<close> as it stands between them. The function returns nothing; the model
  returns the packet as the function leaves it.
\<close>
definition handleIGMP ::
  "(address \<Rightarrow> duration \<Rightarrow> 'e \<Rightarrow> (unit \<times> 'e) gmp) \<Rightarrow> (address \<Rightarrow> 'e \<Rightarrow> (unit \<times> 'e) gmp)
     \<Rightarrow> PacketBuffer \<Rightarrow> 'e igmpState \<Rightarrow> panic + (PacketBuffer \<times> 'e igmpState)" where
  "handleIGMP HandleQuery HandleReport pkt igmp =
     (case PullUp IGMPMinimumSize (Data pkt) of
        None \<Rightarrow>
          Inr (pkt, count_received (\<lambda>r. r\<lparr>received_Invalid := received_Invalid r + 1\<rparr>) igmp)
      | Some headerView \<Rightarrow>
          (let wantChecksum = IGMP_Checksum headerView;
               zeroed = IGMP_SetChecksum 0 (Data pkt);
               gotChecksum = NOT (ChecksumVV zeroed 0);
               restored = IGMP_SetChecksum wantChecksum zeroed;
               pkt = pkt\<lparr>Data := restored\<rparr>;
               h = take IGMPMinimumSize restored
           in if gotChecksum \<noteq> wantChecksum then
                Inr (pkt, count_received (\<lambda>r. r\<lparr>received_ChecksumErrors := received_ChecksumErrors r + 1\<rparr>) igmp)
              else if IGMP_Type h = IGMPMembershipQuery then
                (let igmp = count_received (\<lambda>r. r\<lparr>received_MembershipQuery := received_MembershipQuery r + 1\<rparr>) igmp
                 in if length h < IGMPQueryMinimumSize then
                      Inr (pkt, count_received (\<lambda>r. r\<lparr>received_Invalid := received_Invalid r + 1\<rparr>) igmp)
                    else
                      (case handleMembershipQuery HandleQuery (IGMP_GroupAddress h) (IGMP_MaxRespTime h) igmp of
                         Inl p \<Rightarrow> Inl p
                       | Inr (u, igmp') \<Rightarrow> Inr (pkt, igmp')))
              else if IGMP_Type h = IGMPv1MembershipReport then
                (let igmp = count_received (\<lambda>r. r\<lparr>received_V1MembershipReport := received_V1MembershipReport r + 1\<rparr>) igmp
                 in if length h < IGMPReportMinimumSize then
                      Inr (pkt, count_received (\<lambda>r. r\<lparr>received_Invalid := received_Invalid r + 1\<rparr>) igmp)
                    else
                      (case handleMembershipReport HandleReport (IGMP_GroupAddress h) igmp of
                         Inl p \<Rightarrow> Inl p
                       | Inr (u, igmp') \<Rightarrow> Inr (pkt, igmp')))
              else if IGMP_Type h = IGMPv2MembershipReport then
                (let igmp = count_received (\<lambda>r. r\<lparr>received_V2MembershipReport := received_V2MembershipReport r + 1\<rparr>) igmp
                 in if length h < IGMPReportMinimumSize then
                      Inr (pkt, count_received (\<lambda>r. r\<lparr>received_Invalid := received_Invalid r + 1\<rparr>) igmp)
                    else
                      (case handleMembershipReport HandleReport (IGMP_GroupAddress h) igmp of
                         Inl p \<Rightarrow> Inl p
                       | Inr (u, igmp') \<Rightarrow> Inr (pkt, igmp')))
              else if IGMP_Type h = IGMPLeaveGroup then
                Inr (pkt, count_received (\<lambda>r. r\<lparr>received_LeaveGroup := received_LeaveGroup r + 1\<rparr>) igmp)
              else
                Inr (pkt, count_received (\<lambda>r. r\<lparr>received_Unrecognized := received_Unrecognized r + 1\<rparr>) igmp)))"

subsection \<open>Joining and leaving\<close>

definition joinGroup ::
  "(address \<Rightarrow> bool \<Rightarrow> 'e \<Rightarrow> (unit \<times> 'e) gmp) \<Rightarrow> address \<Rightarrow> 'e igmpState \<Rightarrow> panic + (unit \<times> 'e igmpState)" where
  "joinGroup JoinGroup groupAddress igmp =
     call_engine (JoinGroup groupAddress (\<not> ep_Enabled (ep igmp))) igmp"

definition isInGroup :: "(address \<Rightarrow> 'e \<Rightarrow> bool) \<Rightarrow> address \<Rightarrow> 'e igmpState \<Rightarrow> bool" where
  "isInGroup IsLocallyJoined groupAddress igmp =
     IsLocallyJoined groupAddress (mu_genericMulticastProtocol igmp)"

definition leaveGroup ::
  "(address \<Rightarrow> 'e \<Rightarrow> (bool \<times> 'e) gmp) \<Rightarrow> address \<Rightarrow> 'e igmpState
     \<Rightarrow> panic + (tcpip_error option \<times> 'e igmpState)" where
  "leaveGroup LeaveGroup groupAddress igmp =
     (case call_engine (LeaveGroup groupAddress) igmp of
        Inl p \<Rightarrow> Inl p
      | Inr (left, igmp') \<Rightarrow> if left then Inr (None, igmp') else Inr (Some ErrBadLocalAddress, igmp'))"

definition softLeaveAll :: "('e \<Rightarrow> (unit \<times> 'e) gmp) \<Rightarrow> 'e igmpState \<Rightarrow> panic + (unit \<times> 'e igmpState)" where
  "softLeaveAll MakeAllNonMember igmp = call_engine MakeAllNonMember igmp"

definition initializeAll :: "('e \<Rightarrow> (unit \<times> 'e) gmp) \<Rightarrow> 'e igmpState \<Rightarrow> panic + (unit \<times> 'e igmpState)" where
  "initializeAll InitializeGroups igmp = call_engine InitializeGroups igmp"

subsection \<open>The adapter as a transition system\<close>

text \<open>The methods of the engine that igmp.go calls, collected.\<close>
record 'e GenericMulticastProtocolState =
  eng_Init :: "GenericMulticastProtocolOptions \<Rightarrow> 'e"
  eng_HandleQuery :: "address \<Rightarrow> duration \<Rightarrow> 'e \<Rightarrow> (unit \<times> 'e) gmp"
  eng_HandleReport :: "address \<Rightarrow> 'e \<Rightarrow> (unit \<times> 'e) gmp"
  eng_JoinGroup :: "address \<Rightarrow> bool \<Rightarrow> 'e \<Rightarrow> (unit \<times> 'e) gmp"
  eng_IsLocallyJoined :: "address \<Rightarrow> 'e \<Rightarrow> bool"
  eng_LeaveGroup :: "address \<Rightarrow> 'e \<Rightarrow> (bool \<times> 'e) gmp"
  eng_MakeAllNonMember :: "'e \<Rightarrow> (unit \<times> 'e) gmp"
  eng_InitializeGroups :: "'e \<Rightarrow> (unit \<times> 'e) gmp"

text \<open>
  Whatever happens to an igmpState between two critical sections: a call of one of its
  locked methods, the firing of its own job, or a job of the engine (a delay timer of a
  group), which takes the same lock and runs some computation of the engine. isInGroup
  only reads the engine's state and is not an event.
\<close>
datatype 'e event =
  Receive PacketBuffer
| Join address
| Leave address
| SoftLeaveAll
| InitializeAll
| V1JobFires
| EngineJobFires "'e \<Rightarrow> (unit \<times> 'e) gmp"

fun step :: "'e GenericMulticastProtocolState \<Rightarrow> 'e event \<Rightarrow> 'e igmpState \<Rightarrow> panic + 'e igmpState" where
  "step E (Receive pkt) igmp = map_sum id snd (handleIGMP (eng_HandleQuery E) (eng_HandleReport E) pkt igmp)"
| "step E (Join groupAddress) igmp = map_sum id snd (joinGroup (eng_JoinGroup E) groupAddress igmp)"
| "step E (Leave groupAddress) igmp = map_sum id snd (leaveGroup (eng_LeaveGroup E) groupAddress igmp)"
| "step E SoftLeaveAll igmp = map_sum id snd (softLeaveAll (eng_MakeAllNonMember E) igmp)"
| "step E InitializeAll igmp = map_sum id snd (initializeAll (eng_InitializeGroups E) igmp)"
| "step E V1JobFires igmp = Inr (igmpV1Job_fires igmp)"
| "step E (EngineJobFires job) igmp = map_sum id snd (call_engine job igmp)"

fun run_events :: "'e GenericMulticastProtocolState \<Rightarrow> 'e event list \<Rightarrow> 'e igmpState \<Rightarrow> panic + 'e igmpState" where
  "run_events E [] igmp = Inr igmp"
| "run_events E (ev # evs) igmp =
     (case step E ev igmp of Inl p \<Rightarrow> Inl p | Inr igmp' \<Rightarrow> run_events E evs igmp')"

subsection \<open>The engine's LeaveGroup\<close>

datatype member_state = NonMember | DelayingMember | IdleMember

text \<open>Modelled from the spec: the per-group record of section 3.\<close>
record group_record =
  state :: member_state
  delayTimer :: "duration option"
  lastReporter :: bool
  joinCount :: nat

text \<open>Modelled from the spec: the engine keeps one record per group, from the first
  join to the last leave (section 3).\<close>
type_synonym memberships = "address \<rightharpoonup> group_record"

text \<open>Modelled from the spec: the number of outstanding local joins of a group, zero for
  a group without a record.\<close>
definition joins :: "memberships \<Rightarrow> address \<Rightarrow> nat" where
  "joins m groupAddress = (case m groupAddress of None \<Rightarrow> 0 | Some info \<Rightarrow> joinCount info)"

text \<open>Modelled from the spec: the engine's LeaveGroup is not among the sources. It fails
  for a group that was not joined locally; otherwise it decrements the join count, and
  only the step from 1 to 0 is the Leave of the state table (section 4.2): the delay
  timer is cancelled, a member that was the last reporter sends a leave, and the record
  goes away. The result says whether the group had been joined.\<close>
definition GenericMulticastProtocolState_LeaveGroup :: "address \<Rightarrow> memberships \<Rightarrow> (bool \<times> memberships) gmp" where
  "GenericMulticastProtocolState_LeaveGroup groupAddress m =
     (case m groupAddress of
        None \<Rightarrow> Done (False, m)
      | Some info \<Rightarrow>
          if joinCount info = 0 then Done (False, m)
          else if joinCount info \<noteq> 1 then
            Done (True, m(groupAddress \<mapsto> info\<lparr>joinCount := joinCount info - 1\<rparr>))
          else if state info \<noteq> NonMember \<and> lastReporter info then
            CallSendLeave groupAddress (\<lambda>err. Done (True, m(groupAddress := None)))
          else Done (True, m(groupAddress := None)))"

section \<open>The IPv4 options serializer (pkg/tcpip/header, exercised by ipv4_test.go)\<close>

text \<open>Modelled from the spec: the three recognized options of section 4.1; the serializer
  is not among the sources, only its test is.\<close>
datatype IPv4SerializableOption =
  IPv4SerializableNOPOption
| IPv4SerializableListEndOption
| IPv4SerializableRouterAlertOption

text \<open>Modelled from the spec: NOP is the byte 0x01, End-of-list the byte 0x00, Router Alert
  the four bytes 0x94, 0x04, 0x00, 0x00 (section 4.1).\<close>
fun serializeInto :: "IPv4SerializableOption \<Rightarrow> byte list" where
  "serializeInto IPv4SerializableNOPOption = [0x01]"
| "serializeInto IPv4SerializableListEndOption = [0x00]"
| "serializeInto IPv4SerializableRouterAlertOption = [0x94, 0x04, 0x00, 0x00]"

text \<open>Modelled from the spec: the next multiple of 4 (section 4.1).\<close>
definition padIPv4OptionsLength :: "nat \<Rightarrow> nat" where
  "padIPv4OptionsLength n = (n + 3) div 4 * 4"

text \<open>Modelled from the spec: the options in input order (section 4.1).\<close>
fun serializeAll :: "IPv4SerializableOption list \<Rightarrow> byte list" where
  "serializeAll [] = []"
| "serializeAll (opt # rest) = serializeInto opt @ serializeAll rest"

text \<open>Modelled from the spec: Length() returns the padded length (section 4.1).\<close>
definition IPv4OptionsSerializer_Length :: "IPv4SerializableOption list \<Rightarrow> nat" where
  "IPv4OptionsSerializer_Length s = padIPv4OptionsLength (length (serializeAll s))"

text \<open>Modelled from the spec: Serialize(dst) writes the options in input order, pads with
  zero bytes to the 4-byte boundary and returns the padded length; it writes exactly
  that many bytes, so the rest of \<open>dst\<close> stays (section 4.1). The spec is silent on a
  \<open>dst\<close> that is too short; a Go slice cannot be written past its end, so there is no
  result then.\<close>
definition IPv4OptionsSerializer_Serialize :: "IPv4SerializableOption list \<Rightarrow> byte list \<Rightarrow> (nat \<times> byte list) option" where
  "IPv4OptionsSerializer_Serialize s b =
     (let content = serializeAll s;
          padded = padIPv4OptionsLength (length content)
      in if length b < padded then None
         else Some (padded, content @ replicate (padded - length content) 0 @ drop padded b))"

section \<open>Concrete states\<close>

text \<open>An endpoint with zeroed statistics whose NIC has written nothing yet and will give
  the listed answers.\<close>
definition new_endpoint :: "tcpip_error option list \<Rightarrow> endpoint" where
  "new_endpoint as =
     \<lparr>MaxHeaderLength = 60,
      ep_Enabled = True,
      ep_nic = \<lparr>writes = [], answers = as\<rparr>,
      stats_PacketsSent =
        \<lparr>sent_V1MembershipReport = 0, sent_V2MembershipReport = 0, sent_LeaveGroup = 0, sent_Dropped = 0\<rparr>,
      stats_PacketsReceived =
        \<lparr>received_MembershipQuery = 0, received_V1MembershipReport = 0,
         received_V2MembershipReport = 0, received_LeaveGroup = 0, received_Invalid = 0,
         received_ChecksumErrors = 0, received_Unrecognized = 0\<rparr>\<rparr>"

text \<open>What an engine that only keeps a journal has seen.\<close>
datatype journal_entry = Query address duration | Report address

text \<open>An engine that writes each query and each report into its journal and does
  nothing else: it shows what the adapter hands to the engine.\<close>
definition journal :: "journal_entry list GenericMulticastProtocolState" where
  "journal =
     \<lparr>eng_Init = (\<lambda>options. []),
      eng_HandleQuery = (\<lambda>groupAddress maxRespTime j. Done ((), j @ [Query groupAddress maxRespTime])),
      eng_HandleReport = (\<lambda>groupAddress j. Done ((), j @ [Report groupAddress])),
      eng_JoinGroup = (\<lambda>groupAddress dontInitialize j. Done ((), j)),
      eng_IsLocallyJoined = (\<lambda>groupAddress j. False),
      eng_LeaveGroup = (\<lambda>groupAddress j. Done (False, j)),
      eng_MakeAllNonMember = (\<lambda>j. Done ((), j)),
      eng_InitializeGroups = (\<lambda>j. Done ((), j))\<rparr>"

section \<open>Notions used in the statements\<close>

text \<open>The answer the NIC gives to the next write.\<close>
definition next_answer :: "nic \<Rightarrow> tcpip_error option" where
  "next_answer n = (case answers n of [] \<Rightarrow> None | a # rest \<Rightarrow> a)"

text \<open>The eight bytes that the first statements of writePacket make of a type and a
  group address.\<close>
definition igmp_message :: "byte \<Rightarrow> address \<Rightarrow> byte list" where
  "igmp_message igmpType groupAddress =
     (let igmpData = replicate IGMPReportMinimumSize 0;
          igmpData = IGMP_SetType igmpType igmpData;
          igmpData = IGMP_SetGroupAddress groupAddress igmpData
      in IGMP_SetChecksum (IGMPCalculateChecksum igmpData) igmpData)"

text \<open>The packet that writePacket hands to the NIC.\<close>
definition written_packet :: "nat \<Rightarrow> address \<Rightarrow> address \<Rightarrow> byte \<Rightarrow> PacketBuffer" where
  "written_packet reserve destAddress groupAddress igmpType =
     \<lparr>ReserveHeaderBytes = reserve,
      Data = igmp_message igmpType groupAddress,
      NetworkHeader =
        Some \<lparr>SrcAddr = IPv4Any, DstAddr = destAddress,
              Params = \<lparr>Protocol = IGMPProtocolNumber, TTL = IGMPTTL, TOS = DefaultTOS\<rparr>\<rparr>\<rparr>"

text \<open>An igmpState as init leaves it, over the journal engine: the interface option
  Enabled and the answers of the NIC are given.\<close>
definition new_igmpState :: "bool \<Rightarrow> tcpip_error option list \<Rightarrow> journal_entry list igmpState" where
  "new_igmpState enabled as = init (eng_Init journal) (new_endpoint as) \<lparr>Enabled = enabled\<rparr>"

text \<open>The relation between two states that differ at most in what a transmission
  changes: the NIC and the counters of sent packets.\<close>
definition only_transmits :: "'e igmpState \<Rightarrow> 'e igmpState \<Rightarrow> bool" where
  "only_transmits igmp igmp' =
     (opts igmp' = opts igmp \<and>
      igmpV1Present igmp' = igmpV1Present igmp \<and>
      mu_genericMulticastProtocol igmp' = mu_genericMulticastProtocol igmp \<and>
      mu_igmpV1Job igmp' = mu_igmpV1Job igmp \<and>
      MaxHeaderLength (ep igmp') = MaxHeaderLength (ep igmp) \<and>
      ep_Enabled (ep igmp') = ep_Enabled (ep igmp) \<and>
      stats_PacketsReceived (ep igmp') = stats_PacketsReceived (ep igmp))"

text \<open>The invariant of section 3: the job is armed exactly when the flag is set.\<close>
definition v1_invariant :: "'e igmpState \<Rightarrow> bool" where
  "v1_invariant igmp = (Job_armed (mu_igmpV1Job igmp) = v1Present igmp)"

section \<open>Concrete packets and memberships\<close>

text \<open>A general query as an IGMPv1 router sends it: max response time 0, group 0.0.0.0,
  checksum 0xEEFF.\<close>
definition v1_query :: PacketBuffer where
  "v1_query =
     \<lparr>ReserveHeaderBytes = 0,
      Data = [0x11, 0x00, 0xEE, 0xFF, 0x00, 0x00, 0x00, 0x00],
      NetworkHeader = None\<rparr>"

text \<open>The same query with one bit of its checksum flipped.\<close>
definition corrupted_query :: PacketBuffer where
  "corrupted_query =
     \<lparr>ReserveHeaderBytes = 0,
      Data = [0x11, 0x00, 0xEE, 0xFE, 0x00, 0x00, 0x00, 0x00],
      NetworkHeader = None\<rparr>"

text \<open>A packet of three bytes.\<close>
definition short_packet :: PacketBuffer where
  "short_packet = \<lparr>ReserveHeaderBytes = 0, Data = [0x11, 0x00, 0xEE], NetworkHeader = None\<rparr>"

text \<open>A version 2 report for 225.0.0.5 followed by two more bytes, ten bytes in all. Its
  checksum field 0x5D2C is the complement of the ones-complement sum of all ten bytes;
  over the first eight bytes alone that would be 0x08FA.\<close>
definition trailing_report :: PacketBuffer where
  "trailing_report =
     \<lparr>ReserveHeaderBytes = 0,
      Data = [0x16, 0x00, 0x5D, 0x2C, 0xE1, 0x00, 0x00, 0x05, 0xAB, 0xCD],
      NetworkHeader = None\<rparr>"

text \<open>Memberships in which one group has been joined once and has reported last.\<close>
definition joined_once :: "address \<Rightarrow> memberships" where
  "joined_once groupAddress =
     [groupAddress \<mapsto> \<lparr>state = IdleMember, delayTimer = None, lastReporter = True, joinCount = 1\<rparr>]"

section \<open>Properties of the codec and of the transmit path\<close>

lemma be32_roundtrip:
  fixes a :: "32 word"
  shows "push_bit 24 (ucast (ucast (drop_bit 24 a) :: 8 word)) OR
         push_bit 16 (ucast (ucast (drop_bit 16 a) :: 8 word)) OR
         push_bit 8 (ucast (ucast (drop_bit 8 a) :: 8 word)) OR ucast (ucast a :: 8 word) = a"
proof (rule bit_word_eqI)
  fix n :: nat
  assume "n < LENGTH(32)"
  then show "bit (push_bit 24 (ucast (ucast (drop_bit 24 a) :: 8 word)) OR
         push_bit 16 (ucast (ucast (drop_bit 16 a) :: 8 word)) OR
         push_bit 8 (ucast (ucast (drop_bit 8 a) :: 8 word)) OR (ucast (ucast a :: 8 word) :: 32 word)) n = bit a n"
    by (cases "n < 8"; cases "n < 16"; cases "n < 24") (auto simp add: bit_simps)
qed

lemma group_address_roundtrip:
  "length b = 8 \<Longrightarrow> IGMP_GroupAddress (IGMP_SetChecksum c (IGMP_SetGroupAddress a b)) = a"
  unfolding IGMP_GroupAddress_def IGMP_SetChecksum_def IGMP_SetGroupAddress_def
  by (simp add: be32_roundtrip)

lemma type_roundtrip:
  "length b = 8 \<Longrightarrow> IGMP_Type (IGMP_SetChecksum c (IGMP_SetGroupAddress a (IGMP_SetType t b))) = t"
  unfolding IGMP_Type_def IGMP_SetChecksum_def IGMP_SetGroupAddress_def IGMP_SetType_def
  by simp

lemma igmp_message_length: "length (igmp_message t g) = 8"
  by (simp add: igmp_message_def Let_def IGMPReportMinimumSize_def IGMP_SetChecksum_def
      IGMP_SetGroupAddress_def IGMP_SetType_def)

lemma igmp_message_GroupAddress: "IGMP_GroupAddress (igmp_message t g) = g"
  by (simp add: igmp_message_def Let_def IGMPReportMinimumSize_def group_address_roundtrip
      IGMP_SetType_def)

lemma igmp_message_Type: "IGMP_Type (igmp_message t g) = t"
  by (simp add: igmp_message_def Let_def IGMPReportMinimumSize_def type_roundtrip)

lemma WritePacketToRemote_eq:
  "WritePacketToRemote r proto pkt n =
     (next_answer n,
      n\<lparr>writes := writes n @ [\<lparr>remote = r, ethType = proto, packet = pkt, result = next_answer n\<rparr>],
        answers := tl (answers n)\<rparr>)"
  by (cases "answers n") (simp_all add: WritePacketToRemote_def next_answer_def)

lemma writePacket_unfold:
  "writePacket destAddress groupAddress igmpType igmp =
     (let n = ep_nic (ep igmp);
          w = \<lparr>remote = EthernetAddressFromMulticastIPv4Address destAddress,
               ethType = ProtocolNumber,
               packet = written_packet (MaxHeaderLength (ep igmp)) destAddress groupAddress igmpType,
               result = next_answer n\<rparr>;
          n' = n\<lparr>writes := writes n @ [w], answers := tl (answers n)\<rparr>;
          sent = stats_PacketsSent (ep igmp)
      in case next_answer n of
           Some e \<Rightarrow>
             Inr (Some e, igmp\<lparr>ep := (ep igmp)\<lparr>ep_nic := n',
                    stats_PacketsSent := sent\<lparr>sent_Dropped := sent_Dropped sent + 1\<rparr>\<rparr>\<rparr>)
         | None \<Rightarrow>
             (case count_sent igmpType sent of
                Inl p \<Rightarrow> Inl p
              | Inr sent' \<Rightarrow>
                  Inr (None, igmp\<lparr>ep := (ep igmp)\<lparr>ep_nic := n', stats_PacketsSent := sent'\<rparr>\<rparr>)))"
  by (simp add: writePacket_def Let_def WritePacketToRemote_eq addIPHeader_def
      written_packet_def igmp_message_def split: option.splits sum.splits)

lemma count_sent_recognized:
  "isl (count_sent t sent) =
     (t \<noteq> IGMPv1MembershipReport \<and> t \<noteq> IGMPv2MembershipReport \<and> t \<noteq> IGMPLeaveGroup)"
  by (simp add: count_sent_def)

lemma new_igmpState_simps:
  "ep (new_igmpState enabled as) = new_endpoint as"
  "opts (new_igmpState enabled as) = \<lparr>Enabled = enabled\<rparr>"
  "igmpV1Present (new_igmpState enabled as) = 0"
  "mu_genericMulticastProtocol (new_igmpState enabled as) = []"
  "mu_igmpV1Job (new_igmpState enabled as) = NewJob"
  by (simp_all add: new_igmpState_def init_def journal_def igmpV1PresentDefault_def)

lemma new_endpoint_simps:
  "ep_nic (new_endpoint as) = \<lparr>writes = [], answers = as\<rparr>"
  "ep_Enabled (new_endpoint as) = True"
  "MaxHeaderLength (new_endpoint as) = 60"
  "sent_Dropped (stats_PacketsSent (new_endpoint as)) = 0"
  "sent_LeaveGroup (stats_PacketsSent (new_endpoint as)) = 0"
  "received_ChecksumErrors (stats_PacketsReceived (new_endpoint as)) = 0"
  "received_Invalid (stats_PacketsReceived (new_endpoint as)) = 0"
  by (simp_all add: new_endpoint_def)

lemma only_transmits_refl: "only_transmits igmp igmp"
  by (simp add: only_transmits_def)

lemma only_transmits_trans:
  "only_transmits a b \<Longrightarrow> only_transmits b c \<Longrightarrow> only_transmits a c"
  by (simp add: only_transmits_def)

lemma writePacket_frame:
  "writePacket d g t igmp = Inr (err, igmp') \<Longrightarrow> only_transmits igmp igmp'"
  by (cases "next_answer (ep_nic (ep igmp))")
    (auto simp: writePacket_unfold Let_def only_transmits_def split: sum.splits)

lemma SendReport_frame:
  "\<exists>err igmp'. SendReport g igmp = Inr (err, igmp') \<and> only_transmits igmp igmp'"
proof -
  have "\<not> isl (SendReport g igmp)"
    by (cases "next_answer (ep_nic (ep igmp))")
      (simp_all add: SendReport_def writePacket_unfold Let_def count_sent_def)
  then obtain err igmp' where "SendReport g igmp = Inr (err, igmp')"
    by (cases "SendReport g igmp") auto
  moreover from this have "only_transmits igmp igmp'"
    by (auto simp: SendReport_def Let_def dest: writePacket_frame split: if_splits)
  ultimately show ?thesis by blast
qed

lemma SendLeave_frame:
  "\<exists>err igmp'. SendLeave g igmp = Inr (err, igmp') \<and> only_transmits igmp igmp'"
proof -
  have "\<not> isl (SendLeave g igmp)"
    by (cases "next_answer (ep_nic (ep igmp))")
      (simp_all add: SendLeave_def writePacket_unfold Let_def count_sent_def)
  then obtain err igmp' where "SendLeave g igmp = Inr (err, igmp')"
    by (cases "SendLeave g igmp") auto
  moreover from this have "only_transmits igmp igmp'"
    by (auto simp: SendLeave_def only_transmits_refl dest: writePacket_frame split: if_splits)
  ultimately show ?thesis by blast
qed

lemma run_gmp_frame:
  "\<exists>a igmp'. run_gmp c igmp = Inr (a, igmp') \<and> only_transmits igmp igmp'"
proof (induction c arbitrary: igmp)
  case (Done a)
  then show ?case
    by (simp add: only_transmits_refl)
next
  case (CallSendReport g k)
  obtain err igmp1 where sr: "SendReport g igmp = Inr (err, igmp1)" "only_transmits igmp igmp1"
    using SendReport_frame by blast
  obtain a igmp2 where "run_gmp (k err) igmp1 = Inr (a, igmp2)" "only_transmits igmp1 igmp2"
    using CallSendReport.IH by blast
  with sr show ?case
    by (auto intro: only_transmits_trans)
next
  case (CallSendLeave g k)
  obtain err igmp1 where sr: "SendLeave g igmp = Inr (err, igmp1)" "only_transmits igmp igmp1"
    using SendLeave_frame by blast
  obtain a igmp2 where "run_gmp (k err) igmp1 = Inr (a, igmp2)" "only_transmits igmp1 igmp2"
    using CallSendLeave.IH by blast
  with sr show ?case
    by (auto intro: only_transmits_trans)
qed

lemma call_engine_frame:
  "\<exists>a e' igmp'. call_engine m igmp = Inr (a, igmp'\<lparr>mu_genericMulticastProtocol := e'\<rparr>) \<and>
      run_gmp (m (mu_genericMulticastProtocol igmp)) igmp = Inr ((a, e'), igmp') \<and>
      only_transmits igmp igmp'"
proof -
  obtain r igmp' where "run_gmp (m (mu_genericMulticastProtocol igmp)) igmp = Inr (r, igmp')"
    "only_transmits igmp igmp'"
    using run_gmp_frame [of "m (mu_genericMulticastProtocol igmp)" igmp] by blast
  then show ?thesis
    by (cases r) (simp add: call_engine_def)
qed

section \<open>The claims about the transmit path\<close>

text \<open>
  C2. For every group address, when v1RouterPresent is true SendLeave returns nil and
  leaves the whole state as it was: nothing is handed to the NIC and no counter of sent
  packets moves, the LeaveGroup counter included.
\<close>
theorem SendLeave_suppressed:
  "v1Present igmp \<Longrightarrow> SendLeave groupAddress igmp = Inr (None, igmp)"
  by (simp add: SendLeave_def)

theorem SendLeave_suppressed_witness:
  "v1Present (setV1Present True (new_igmpState True [])) \<and>
   SendLeave 0xE1000005 (setV1Present True (new_igmpState True [])) =
     Inr (None, setV1Present True (new_igmpState True []))"
proof -
  have h: "v1Present (setV1Present True (new_igmpState True []))"
    by (simp add: v1Present_def setV1Present_def)
  show ?thesis
    using h SendLeave_suppressed [OF h, of "0xE1000005"] by simp
qed

text \<open>
  C3. For every group address, SendReport hands exactly one packet to the NIC; its IGMP
  type is V1MembershipReport when v1RouterPresent is true and V2MembershipReport
  otherwise, and in both cases the destination address of its IP header, like the group
  field of the message, is the group being reported. SendReport does not panic.
\<close>
theorem SendReport_message:
  "\<exists>err igmp' w.
     SendReport groupAddress igmp = Inr (err, igmp') \<and>
     writes (ep_nic (ep igmp')) = writes (ep_nic (ep igmp)) @ [w] \<and>
     IGMP_Type (Data (packet w)) =
       (if v1Present igmp then IGMPv1MembershipReport else IGMPv2MembershipReport) \<and>
     map_option DstAddr (NetworkHeader (packet w)) = Some groupAddress \<and>
     IGMP_GroupAddress (Data (packet w)) = groupAddress"
  by (cases "next_answer (ep_nic (ep igmp))")
    (simp_all add: SendReport_def writePacket_unfold Let_def count_sent_def written_packet_def
      igmp_message_Type igmp_message_GroupAddress)

theorem SendReport_message_witness:
  "\<exists>err igmp' w.
     SendReport 0xE1000005 (setV1Present True (new_igmpState True [])) = Inr (err, igmp') \<and>
     writes (ep_nic (ep igmp')) = [w] \<and>
     IGMP_Type (Data (packet w)) = 0x12 \<and>
     map_option DstAddr (NetworkHeader (packet w)) = Some 0xE1000005"
  using SendReport_message [of "0xE1000005" "setV1Present True (new_igmpState True [])"]
  by (simp add: v1Present_def setV1Present_def new_igmpState_simps new_endpoint_simps
      IGMPv1MembershipReport_def) blast

text \<open>
  C5. For every group address, when v1RouterPresent is false SendLeave hands one
  LeaveGroup message for the group to the NIC, and the destination address of its IP
  header is header.IPv4AllRoutersGroup, which the specification writes 224.0.2.0.
\<close>
theorem SendLeave_destination:
  "\<not> v1Present igmp \<Longrightarrow>
   \<exists>err igmp' w.
     SendLeave groupAddress igmp = Inr (err, igmp') \<and>
     writes (ep_nic (ep igmp')) = writes (ep_nic (ep igmp)) @ [w] \<and>
     result w = err \<and>
     IGMP_Type (Data (packet w)) = IGMPLeaveGroup \<and>
     IGMP_GroupAddress (Data (packet w)) = groupAddress \<and>
     map_option DstAddr (NetworkHeader (packet w)) = Some IPv4AllRoutersGroup \<and>
     IPv4AllRoutersGroup = 0xE0000200"
  by (cases "next_answer (ep_nic (ep igmp))")
    (simp_all add: SendLeave_def writePacket_unfold Let_def count_sent_def written_packet_def
      igmp_message_Type igmp_message_GroupAddress IPv4AllRoutersGroup_def)

theorem SendLeave_destination_witness:
  "\<not> v1Present (new_igmpState True []) \<and>
   (\<exists>err igmp' w.
      SendLeave 0xE1000005 (new_igmpState True []) = Inr (err, igmp') \<and>
      writes (ep_nic (ep igmp')) = [w] \<and>
      IGMP_Type (Data (packet w)) = 0x17 \<and>
      map_option DstAddr (NetworkHeader (packet w)) = Some 0xE0000200)"
proof -
  have h: "\<not> v1Present (new_igmpState True [])"
    by (simp add: v1Present_def new_igmpState_simps)
  show ?thesis
    using h SendLeave_destination [OF h, of "0xE1000005"]
    by (simp add: new_igmpState_simps new_endpoint_simps IGMPLeaveGroup_def) metis
qed

text \<open>
  C8, as stated, fails: an IGMP type that is none of the three recognized ones does not
  make writePacket panic when the NIC refuses the packet. Here the type is
  MembershipQuery and the NIC answers ErrNoBufferSpace: writePacket returns that error.
\<close>
theorem writePacket_no_panic_counterexample:
  "IGMPMembershipQuery \<noteq> IGMPv1MembershipReport \<and>
   IGMPMembershipQuery \<noteq> IGMPv2MembershipReport \<and>
   IGMPMembershipQuery \<noteq> IGMPLeaveGroup \<and>
   map_sum id fst (writePacket IPv4AllSystems IPv4AllSystems IGMPMembershipQuery
                     (new_igmpState True [Some ErrNoBufferSpace]))
     = Inr (Some ErrNoBufferSpace)"
  by (simp add: writePacket_unfold Let_def next_answer_def new_igmpState_def init_def
      new_endpoint_def IGMPMembershipQuery_def IGMPv1MembershipReport_def
      IGMPv2MembershipReport_def IGMPLeaveGroup_def)

text \<open>
  C8, amended. writePacket panics exactly when the type is none of V1MembershipReport,
  V2MembershipReport and LeaveGroup and the NIC has accepted the packet; for the three
  recognized types it never panics. When the NIC refuses the packet, writePacket counts
  it as dropped and returns the NIC's error, whatever the type.
\<close>
theorem writePacket_panics:
  "isl (writePacket destAddress groupAddress igmpType igmp) =
     (igmpType \<noteq> IGMPv1MembershipReport \<and> igmpType \<noteq> IGMPv2MembershipReport \<and>
      igmpType \<noteq> IGMPLeaveGroup \<and> next_answer (ep_nic (ep igmp)) = None) \<and>
   (next_answer (ep_nic (ep igmp)) = Some e \<longrightarrow>
      (\<exists>igmp'. writePacket destAddress groupAddress igmpType igmp = Inr (Some e, igmp') \<and>
         sent_Dropped (stats_PacketsSent (ep igmp')) = sent_Dropped (stats_PacketsSent (ep igmp)) + 1))"
  by (cases "next_answer (ep_nic (ep igmp))"; cases "count_sent igmpType (stats_PacketsSent (ep igmp))")
    (use count_sent_recognized [of igmpType "stats_PacketsSent (ep igmp)"]
      in \<open>simp_all add: writePacket_unfold Let_def\<close>)

theorem writePacket_panics_witness:
  "isl (writePacket IPv4AllSystems IPv4AllSystems IGMPMembershipQuery (new_igmpState True [])) \<and>
   next_answer (ep_nic (ep (new_igmpState True [Some ErrNoRoute]))) = Some ErrNoRoute \<and>
   (\<exists>igmp'. writePacket IPv4AllSystems IPv4AllSystems IGMPMembershipQuery
               (new_igmpState True [Some ErrNoRoute]) = Inr (Some ErrNoRoute, igmp') \<and>
            sent_Dropped (stats_PacketsSent (ep igmp')) = 1)"
proof -
  have a: "next_answer (ep_nic (ep (new_igmpState True []))) = None"
    by (simp add: next_answer_def new_igmpState_simps new_endpoint_simps)
  have b: "next_answer (ep_nic (ep (new_igmpState True [Some ErrNoRoute]))) = Some ErrNoRoute"
    by (simp add: next_answer_def new_igmpState_simps new_endpoint_simps)
  have t: "IGMPMembershipQuery \<noteq> IGMPv1MembershipReport \<and>
      IGMPMembershipQuery \<noteq> IGMPv2MembershipReport \<and> IGMPMembershipQuery \<noteq> IGMPLeaveGroup"
    by (simp add: IGMPMembershipQuery_def IGMPv1MembershipReport_def
        IGMPv2MembershipReport_def IGMPLeaveGroup_def)
  show ?thesis
    using a b t
      writePacket_panics [of IPv4AllSystems IPv4AllSystems IGMPMembershipQuery
        "new_igmpState True []" ErrNoRoute]
      writePacket_panics [of IPv4AllSystems IPv4AllSystems IGMPMembershipQuery
        "new_igmpState True [Some ErrNoRoute]" ErrNoRoute]
    by (simp add: new_igmpState_simps new_endpoint_simps)
qed

section \<open>Calls of the engine, unfolded\<close>

lemma call_engine_Done:
  "call_engine (\<lambda>e. Done (a, f e)) igmp =
     Inr (a, igmp\<lparr>mu_genericMulticastProtocol := f (mu_genericMulticastProtocol igmp)\<rparr>)"
  by (simp add: call_engine_def)

lemma journal_simps:
  "eng_HandleQuery journal = (\<lambda>groupAddress maxRespTime j. Done ((), j @ [Query groupAddress maxRespTime]))"
  "eng_HandleReport journal = (\<lambda>groupAddress j. Done ((), j @ [Report groupAddress]))"
  by (simp_all add: journal_def)

lemma handleMembershipQuery_unfold:
  "handleMembershipQuery HandleQuery groupAddress maxRespTime igmp =
     (if maxRespTime = 0 \<and> Enabled (opts igmp) then
        call_engine (HandleQuery groupAddress v1MaxRespTime)
          (igmp\<lparr>mu_igmpV1Job := Job_Schedule v1RouterPresentTimeout (Job_Cancel (mu_igmpV1Job igmp)),
                igmpV1Present := 1\<rparr>)
      else call_engine (HandleQuery groupAddress maxRespTime) igmp)"
  by (simp add: handleMembershipQuery_def Let_def setV1Present_def)

lemma run_gmp_total:
  "\<exists>r igmp'. run_gmp c igmp = Inr (r, igmp')"
  using run_gmp_frame [of c igmp] by blast

section \<open>The claims about queries from an IGMPv1 router\<close>

text \<open>
  C1. For every query whose max response time is zero: when the interface option Enabled
  is true, handleMembershipQuery cancels the job and schedules it for 400 seconds, sets
  v1RouterPresent, and calls the engine's HandleQuery for the same group with a max
  response time of 10 seconds; it returns with the flag set and the job scheduled for
  400 seconds. When Enabled is false it returns with the flag as it was.
\<close>
theorem handleMembershipQuery_v1_query:
  "(Enabled (opts igmp) \<longrightarrow>
      handleMembershipQuery HandleQuery groupAddress 0 igmp =
        call_engine (HandleQuery groupAddress (10 * Second))
          (igmp\<lparr>mu_igmpV1Job := Job_Schedule (400 * Second) (Job_Cancel (mu_igmpV1Job igmp)),
                igmpV1Present := 1\<rparr>) \<and>
      (\<exists>igmp'. handleMembershipQuery HandleQuery groupAddress 0 igmp = Inr ((), igmp') \<and>
         v1Present igmp' \<and> scheduled (mu_igmpV1Job igmp') = Some (400 * Second))) \<and>
   (\<not> Enabled (opts igmp) \<longrightarrow>
      (\<exists>igmp'. handleMembershipQuery HandleQuery groupAddress 0 igmp = Inr ((), igmp') \<and>
         igmpV1Present igmp' = igmpV1Present igmp))"
proof (cases "Enabled (opts igmp)")
  case True
  let ?mid = "igmp\<lparr>mu_igmpV1Job := Job_Schedule (400 * Second) (Job_Cancel (mu_igmpV1Job igmp)),
                igmpV1Present := 1\<rparr>"
  have eq: "handleMembershipQuery HandleQuery groupAddress 0 igmp =
      call_engine (HandleQuery groupAddress (10 * Second)) ?mid"
    using True
    by (simp add: handleMembershipQuery_def Let_def setV1Present_def v1RouterPresentTimeout_def
        v1MaxRespTime_def)
  obtain a e' igmp' where
    "call_engine (HandleQuery groupAddress (10 * Second)) ?mid =
       Inr (a, igmp'\<lparr>mu_genericMulticastProtocol := e'\<rparr>)"
    "only_transmits ?mid igmp'"
    using call_engine_frame [of "HandleQuery groupAddress (10 * Second)" ?mid] by blast
  then have "\<exists>igmp''. call_engine (HandleQuery groupAddress (10 * Second)) ?mid = Inr ((), igmp'') \<and>
      v1Present igmp'' \<and> scheduled (mu_igmpV1Job igmp'') = Some (400 * Second)"
    by (simp add: only_transmits_def v1Present_def Job_Schedule_def Job_Cancel_def)
  with eq True show ?thesis by simp
next
  case False
  have eq: "handleMembershipQuery HandleQuery groupAddress 0 igmp =
      call_engine (HandleQuery groupAddress 0) igmp"
    using False by (simp add: handleMembershipQuery_def Let_def)
  obtain a e' igmp' where
    "call_engine (HandleQuery groupAddress 0) igmp =
       Inr (a, igmp'\<lparr>mu_genericMulticastProtocol := e'\<rparr>)"
    "only_transmits igmp igmp'"
    using call_engine_frame [of "HandleQuery groupAddress 0" igmp] by blast
  then have "\<exists>igmp''. call_engine (HandleQuery groupAddress 0) igmp = Inr ((), igmp'') \<and>
      igmpV1Present igmp'' = igmpV1Present igmp"
    by (simp add: only_transmits_def)
  with eq False show ?thesis by simp
qed

theorem handleMembershipQuery_v1_query_witness:
  "Enabled (opts (new_igmpState True [])) \<and>
   handleMembershipQuery (eng_HandleQuery journal) 0xE1000005 0 (new_igmpState True []) =
     Inr ((), new_igmpState True []
               \<lparr>mu_igmpV1Job := \<lparr>scheduled = Some 400000000000\<rparr>, igmpV1Present := 1,
                mu_genericMulticastProtocol := [Query 0xE1000005 10000000000]\<rparr>) \<and>
   \<not> Enabled (opts (new_igmpState False [])) \<and>
   (\<exists>igmp'. handleMembershipQuery (eng_HandleQuery journal) 0xE1000005 0 (new_igmpState False []) =
              Inr ((), igmp') \<and> igmpV1Present igmp' = 0)"
  using handleMembershipQuery_v1_query [of "new_igmpState True []" "eng_HandleQuery journal" "0xE1000005"]
    handleMembershipQuery_v1_query [of "new_igmpState False []" "eng_HandleQuery journal" "0xE1000005"]
  by (simp add: new_igmpState_simps journal_simps call_engine_Done Job_Schedule_def Job_Cancel_def
      NewJob_def Second_def Millisecond_def)

text \<open>
  C10. For every query whose max response time is zero, received while the interface
  option Enabled is false, handleMembershipQuery is the call of the engine's HandleQuery
  for the group with max response time zero and nothing else: the job is neither
  cancelled nor scheduled and the flag stays.
\<close>
theorem handleMembershipQuery_disabled:
  "\<not> Enabled (opts igmp) \<Longrightarrow>
     handleMembershipQuery HandleQuery groupAddress 0 igmp =
       call_engine (HandleQuery groupAddress 0) igmp \<and>
     (\<exists>igmp'. handleMembershipQuery HandleQuery groupAddress 0 igmp = Inr ((), igmp') \<and>
        mu_igmpV1Job igmp' = mu_igmpV1Job igmp \<and> igmpV1Present igmp' = igmpV1Present igmp)"
proof -
  assume dis: "\<not> Enabled (opts igmp)"
  have eq: "handleMembershipQuery HandleQuery groupAddress 0 igmp =
      call_engine (HandleQuery groupAddress 0) igmp"
    using dis by (simp add: handleMembershipQuery_def Let_def)
  obtain a e' igmp' where
    "call_engine (HandleQuery groupAddress 0) igmp =
       Inr (a, igmp'\<lparr>mu_genericMulticastProtocol := e'\<rparr>)"
    "only_transmits igmp igmp'"
    using call_engine_frame [of "HandleQuery groupAddress 0" igmp] by blast
  then have "\<exists>igmp''. call_engine (HandleQuery groupAddress 0) igmp = Inr ((), igmp'') \<and>
      mu_igmpV1Job igmp'' = mu_igmpV1Job igmp \<and> igmpV1Present igmp'' = igmpV1Present igmp"
    by (simp add: only_transmits_def)
  with eq show ?thesis by simp
qed

theorem handleMembershipQuery_disabled_witness:
  "\<not> Enabled (opts (new_igmpState False [])) \<and>
   handleMembershipQuery (eng_HandleQuery journal) 0xE1000005 0 (new_igmpState False []) =
     Inr ((), new_igmpState False [] \<lparr>mu_genericMulticastProtocol := [Query 0xE1000005 0]\<rparr>)"
proof -
  have h: "\<not> Enabled (opts (new_igmpState False []))"
    by (simp add: new_igmpState_simps)
  show ?thesis
    using h handleMembershipQuery_disabled [OF h, of "eng_HandleQuery journal" "0xE1000005"]
    by (simp add: new_igmpState_simps journal_simps call_engine_Done)
qed

section \<open>The invariant of the flag and its job\<close>

lemma only_transmits_invariant:
  "only_transmits igmp igmp' \<Longrightarrow> v1_invariant igmp' = v1_invariant igmp"
  by (simp add: only_transmits_def v1_invariant_def v1Present_def)

lemma v1_invariant_engine_update [simp]:
  "v1_invariant (igmp\<lparr>mu_genericMulticastProtocol := e\<rparr>) = v1_invariant igmp"
  by (simp add: v1_invariant_def v1Present_def)

lemma v1_invariant_count_received [simp]:
  "v1_invariant (count_received f igmp) = v1_invariant igmp"
  by (simp add: v1_invariant_def v1Present_def count_received_def)

lemma call_engine_invariant:
  assumes "v1_invariant igmp"
  shows "\<exists>a igmp'. call_engine m igmp = Inr (a, igmp') \<and> v1_invariant igmp'"
proof -
  obtain a e' igmp' where
    "call_engine m igmp = Inr (a, igmp'\<lparr>mu_genericMulticastProtocol := e'\<rparr>)"
    "only_transmits igmp igmp'"
    using call_engine_frame [of m igmp] by blast
  with assms show ?thesis
    by (auto simp: only_transmits_invariant)
qed

lemma handleMembershipQuery_invariant:
  assumes "v1_invariant igmp"
  shows "\<exists>igmp'. handleMembershipQuery HandleQuery groupAddress maxRespTime igmp = Inr ((), igmp') \<and>
           v1_invariant igmp'"
proof -
  let ?mid = "igmp\<lparr>mu_igmpV1Job := Job_Schedule v1RouterPresentTimeout (Job_Cancel (mu_igmpV1Job igmp)),
                igmpV1Present := 1\<rparr>"
  have "v1_invariant ?mid"
    by (simp add: v1_invariant_def v1Present_def Job_armed_def Job_Schedule_def)
  then have a: "\<exists>u igmp'. call_engine (HandleQuery groupAddress v1MaxRespTime) ?mid = Inr (u, igmp') \<and>
      v1_invariant igmp'"
    by (rule call_engine_invariant)
  have b: "\<exists>u igmp'. call_engine (HandleQuery groupAddress maxRespTime) igmp = Inr (u, igmp') \<and>
      v1_invariant igmp'"
    using assms by (rule call_engine_invariant)
  show ?thesis
  proof (cases "maxRespTime = 0 \<and> Enabled (opts igmp)")
    case True
    have "handleMembershipQuery HandleQuery groupAddress maxRespTime igmp =
        call_engine (HandleQuery groupAddress v1MaxRespTime) ?mid"
      by (simp only: handleMembershipQuery_unfold True if_True simp_thms)
    with a show ?thesis by simp
  next
    case False
    have "handleMembershipQuery HandleQuery groupAddress maxRespTime igmp =
        call_engine (HandleQuery groupAddress maxRespTime) igmp"
      by (simp only: handleMembershipQuery_unfold False if_False)
    with b show ?thesis by simp
  qed
qed

lemma handleMembershipReport_invariant:
  assumes "v1_invariant igmp"
  shows "\<exists>igmp'. handleMembershipReport HandleReport groupAddress igmp = Inr ((), igmp') \<and>
           v1_invariant igmp'"
  using call_engine_invariant [OF assms, of "HandleReport groupAddress"]
  by (simp add: handleMembershipReport_def)

lemma dispatch_invariant:
  assumes "\<exists>igmp'. r = Inr ((), igmp') \<and> v1_invariant igmp'"
  shows "\<exists>pkt' igmp'. (case r of Inl p \<Rightarrow> Inl p | Inr (u, igmp') \<Rightarrow> Inr (pkt, igmp')) = Inr (pkt', igmp') \<and>
           v1_invariant igmp'"
  using assms by auto

lemma handleIGMP_invariant:
  assumes "v1_invariant igmp"
  shows "\<exists>pkt' igmp'. handleIGMP HandleQuery HandleReport pkt igmp = Inr (pkt', igmp') \<and>
           v1_invariant igmp'"
proof (cases "PullUp IGMPMinimumSize (Data pkt)")
  case None
  with assms show ?thesis
    by (simp add: handleIGMP_def)
next
  case (Some headerView)
  define restored where
    "restored = IGMP_SetChecksum (IGMP_Checksum headerView) (IGMP_SetChecksum 0 (Data pkt))"
  define h where "h = take IGMPMinimumSize restored"
  have q: "\<exists>pkt' igmp'.
      (case handleMembershipQuery HandleQuery (IGMP_GroupAddress h) (IGMP_MaxRespTime h)
              (count_received f igmp) of
         Inl p \<Rightarrow> Inl p | Inr (u, igmp') \<Rightarrow> Inr (pkt\<lparr>Data := restored\<rparr>, igmp')) = Inr (pkt', igmp') \<and>
      v1_invariant igmp'" for f
    by (rule dispatch_invariant, rule handleMembershipQuery_invariant) (simp add: assms)
  have r: "\<exists>pkt' igmp'.
      (case handleMembershipReport HandleReport (IGMP_GroupAddress h) (count_received f igmp) of
         Inl p \<Rightarrow> Inl p | Inr (u, igmp') \<Rightarrow> Inr (pkt\<lparr>Data := restored\<rparr>, igmp')) = Inr (pkt', igmp') \<and>
      v1_invariant igmp'" for f
    by (rule dispatch_invariant, rule handleMembershipReport_invariant) (simp add: assms)
  show ?thesis
    unfolding handleIGMP_def Some option.case Let_def restored_def [symmetric] h_def [symmetric]
    by (simp add: assms q r)
qed

lemma igmpV1Job_fires_invariant:
  "v1_invariant igmp \<Longrightarrow> v1_invariant (igmpV1Job_fires igmp)"
  by (cases "scheduled (mu_igmpV1Job igmp)")
    (simp_all add: igmpV1Job_fires_def v1_invariant_def v1Present_def setV1Present_def Job_armed_def)

lemma step_invariant:
  assumes "v1_invariant igmp"
  shows "\<exists>igmp'. step E ev igmp = Inr igmp' \<and> v1_invariant igmp'"
proof (cases ev)
  case (Receive pkt)
  then show ?thesis
    using handleIGMP_invariant [OF assms, of "eng_HandleQuery E" "eng_HandleReport E" pkt] by auto
next
  case (Join g)
  then show ?thesis
    using call_engine_invariant [OF assms, of "eng_JoinGroup E g (\<not> ep_Enabled (ep igmp))"]
    by (auto simp: joinGroup_def)
next
  case (Leave g)
  then show ?thesis
    using call_engine_invariant [OF assms, of "eng_LeaveGroup E g"]
    by (auto simp: leaveGroup_def)
next
  case SoftLeaveAll
  then show ?thesis
    using call_engine_invariant [OF assms, of "eng_MakeAllNonMember E"]
    by (auto simp: softLeaveAll_def)
next
  case InitializeAll
  then show ?thesis
    using call_engine_invariant [OF assms, of "eng_InitializeGroups E"]
    by (auto simp: initializeAll_def)
next
  case V1JobFires
  then show ?thesis
    using assms by (simp add: igmpV1Job_fires_invariant)
next
  case (EngineJobFires job)
  then show ?thesis
    using call_engine_invariant [OF assms, of job] by auto
qed

lemma run_events_invariant:
  "v1_invariant igmp \<Longrightarrow> \<exists>igmp'. run_events E evs igmp = Inr igmp' \<and> v1_invariant igmp'"
proof (induction evs arbitrary: igmp)
  case Nil
  then show ?case by simp
next
  case (Cons ev evs)
  obtain igmp1 where "step E ev igmp = Inr igmp1" "v1_invariant igmp1"
    using step_invariant [OF Cons.prems] by blast
  then show ?case
    using Cons.IH [of igmp1] by simp
qed

lemma init_invariant: "v1_invariant (init Init endp options)"
  by (simp add: init_def v1_invariant_def v1Present_def Job_armed_def NewJob_def
      igmpV1PresentDefault_def)

section \<open>Checksum verification on receive\<close>

lemma be16_high:
  fixes a b :: "8 word"
  shows "(ucast (drop_bit 8 (push_bit 8 (ucast a) OR (ucast b :: 16 word))) :: 8 word) = a"
  by (rule bit_word_eqI) (auto simp add: bit_simps dest: bit_imp_le_length)

lemma be16_low:
  fixes a b :: "8 word"
  shows "(ucast (push_bit 8 (ucast a) OR (ucast b :: 16 word)) :: 8 word) = b"
  by (rule bit_word_eqI) (auto simp add: bit_simps)

lemma SetChecksum_restores:
  "IGMP_SetChecksum (IGMP_Checksum d) (IGMP_SetChecksum 0 d) = d"
proof -
  have h: "ucast (drop_bit 8 (IGMP_Checksum d)) = d ! 2"
    unfolding IGMP_Checksum_def by (rule be16_high)
  have l: "ucast (IGMP_Checksum d) = d ! 3"
    unfolding IGMP_Checksum_def by (rule be16_low)
  have "d[2 := x, 3 := y, 2 := d ! 2, 3 := d ! 3] = d" for x y
    by (simp add: list_update_swap [of 3 2])
  then show ?thesis
    unfolding IGMP_SetChecksum_def h l .
qed

lemma Checksum_take:
  "8 \<le> length d \<Longrightarrow> IGMP_Checksum (take 8 d) = IGMP_Checksum d"
  by (simp add: IGMP_Checksum_def)

lemma handleMembershipQuery_received:
  "\<exists>igmp'. handleMembershipQuery HandleQuery g m igmp = Inr ((), igmp') \<and>
     stats_PacketsReceived (ep igmp') = stats_PacketsReceived (ep igmp)"
proof -
  have a: "\<exists>u igmp'. call_engine c x = Inr (u, igmp') \<and>
      stats_PacketsReceived (ep igmp') = stats_PacketsReceived (ep x)"
    for c :: "'a \<Rightarrow> (unit \<times> 'a) gmp" and x
    using call_engine_frame [of c x] by (auto simp: only_transmits_def)
  show ?thesis
    unfolding handleMembershipQuery_unfold
    using a [of "HandleQuery g v1MaxRespTime"
        "igmp\<lparr>mu_igmpV1Job := Job_Schedule v1RouterPresentTimeout (Job_Cancel (mu_igmpV1Job igmp)),
                igmpV1Present := 1\<rparr>"]
      a [of "HandleQuery g m" igmp]
    by (cases "m = 0 \<and> Enabled (opts igmp)") simp_all
qed

lemma handleMembershipReport_received:
  "\<exists>igmp'. handleMembershipReport HandleReport g igmp = Inr ((), igmp') \<and>
     stats_PacketsReceived (ep igmp') = stats_PacketsReceived (ep igmp)"
  using call_engine_frame [of "HandleReport g" igmp]
  by (auto simp: only_transmits_def handleMembershipReport_def)

lemma handleIGMP_unfold:
  assumes "8 \<le> length (Data pkt)"
  shows "handleIGMP HandleQuery HandleReport pkt igmp =
     (let h = take 8 (Data pkt) in
      if NOT (ChecksumVV (IGMP_SetChecksum 0 (Data pkt)) 0) \<noteq> IGMP_Checksum (Data pkt) then
        Inr (pkt, count_received (\<lambda>r. r\<lparr>received_ChecksumErrors := received_ChecksumErrors r + 1\<rparr>) igmp)
      else if IGMP_Type h = IGMPMembershipQuery then
        (case handleMembershipQuery HandleQuery (IGMP_GroupAddress h) (IGMP_MaxRespTime h)
                (count_received (\<lambda>r. r\<lparr>received_MembershipQuery := received_MembershipQuery r + 1\<rparr>) igmp) of
           Inl p \<Rightarrow> Inl p
         | Inr (u, igmp') \<Rightarrow> Inr (pkt, igmp'))
      else if IGMP_Type h = IGMPv1MembershipReport then
        (case handleMembershipReport HandleReport (IGMP_GroupAddress h)
                (count_received (\<lambda>r. r\<lparr>received_V1MembershipReport := received_V1MembershipReport r + 1\<rparr>) igmp) of
           Inl p \<Rightarrow> Inl p
         | Inr (u, igmp') \<Rightarrow> Inr (pkt, igmp'))
      else if IGMP_Type h = IGMPv2MembershipReport then
        (case handleMembershipReport HandleReport (IGMP_GroupAddress h)
                (count_received (\<lambda>r. r\<lparr>received_V2MembershipReport := received_V2MembershipReport r + 1\<rparr>) igmp) of
           Inl p \<Rightarrow> Inl p
         | Inr (u, igmp') \<Rightarrow> Inr (pkt, igmp'))
      else if IGMP_Type h = IGMPLeaveGroup then
        Inr (pkt, count_received (\<lambda>r. r\<lparr>received_LeaveGroup := received_LeaveGroup r + 1\<rparr>) igmp)
      else
        Inr (pkt, count_received (\<lambda>r. r\<lparr>received_Unrecognized := received_Unrecognized r + 1\<rparr>) igmp))"
proof -
  have p: "PullUp IGMPMinimumSize (Data pkt) = Some (take 8 (Data pkt))"
    using assms by (simp add: PullUp_def IGMPMinimumSize_def)
  have c: "IGMP_Checksum (take 8 (Data pkt)) = IGMP_Checksum (Data pkt)"
    using assms by (rule Checksum_take)
  have l: "\<not> length (take IGMPMinimumSize (Data pkt)) < IGMPQueryMinimumSize"
    "\<not> length (take IGMPMinimumSize (Data pkt)) < IGMPReportMinimumSize"
    using assms by (simp_all add: IGMPMinimumSize_def IGMPQueryMinimumSize_def IGMPReportMinimumSize_def)
  have i: "pkt\<lparr>Data := Data pkt\<rparr> = pkt"
    by simp
  show ?thesis
    unfolding handleIGMP_def p option.case Let_def c SetChecksum_restores i
    by (simp only: l if_False) (simp only: IGMPMinimumSize_def)
qed

lemma count_received_ChecksumErrors:
  "stats_PacketsReceived (ep (count_received f igmp)) = f (stats_PacketsReceived (ep igmp))"
  by (simp add: count_received_def)

lemma dispatch_received:
  assumes "\<exists>igmp'. r = Inr ((), igmp') \<and> stats_PacketsReceived (ep igmp') = c"
  shows "\<exists>igmp'. (case r of Inl p \<Rightarrow> Inl p | Inr (u, igmp') \<Rightarrow> Inr (pkt, igmp')) = Inr (pkt, igmp') \<and>
           stats_PacketsReceived (ep igmp') = c"
  using assms by auto

lemma handleIGMP_accepted:
  assumes "8 \<le> length (Data pkt)"
    and "NOT (ChecksumVV (IGMP_SetChecksum 0 (Data pkt)) 0) = IGMP_Checksum (Data pkt)"
  shows "\<exists>igmp'. handleIGMP HandleQuery HandleReport pkt igmp = Inr (pkt, igmp') \<and>
     received_ChecksumErrors (stats_PacketsReceived (ep igmp')) =
       received_ChecksumErrors (stats_PacketsReceived (ep igmp))"
proof -
  define h where "h = take 8 (Data pkt)"
  have q: "\<exists>igmp'.
      (case handleMembershipQuery HandleQuery (IGMP_GroupAddress h) (IGMP_MaxRespTime h)
              (count_received f igmp) of
         Inl p \<Rightarrow> Inl p | Inr (u, igmp') \<Rightarrow> Inr (pkt, igmp')) = Inr (pkt, igmp') \<and>
      stats_PacketsReceived (ep igmp') = f (stats_PacketsReceived (ep igmp))" for f
    by (rule dispatch_received)
      (use handleMembershipQuery_received [of HandleQuery _ _ "count_received f igmp"]
        in \<open>simp add: count_received_ChecksumErrors\<close>)
  have r: "\<exists>igmp'.
      (case handleMembershipReport HandleReport (IGMP_GroupAddress h) (count_received f igmp) of
         Inl p \<Rightarrow> Inl p | Inr (u, igmp') \<Rightarrow> Inr (pkt, igmp')) = Inr (pkt, igmp') \<and>
      stats_PacketsReceived (ep igmp') = f (stats_PacketsReceived (ep igmp))" for f
    by (rule dispatch_received)
      (use handleMembershipReport_received [of HandleReport _ "count_received f igmp"]
        in \<open>simp add: count_received_ChecksumErrors\<close>)
  consider (query) "IGMP_Type h = IGMPMembershipQuery"
    | (v1) "IGMP_Type h \<noteq> IGMPMembershipQuery" "IGMP_Type h = IGMPv1MembershipReport"
    | (v2) "IGMP_Type h \<noteq> IGMPMembershipQuery" "IGMP_Type h \<noteq> IGMPv1MembershipReport"
        "IGMP_Type h = IGMPv2MembershipReport"
    | (other) "IGMP_Type h \<noteq> IGMPMembershipQuery" "IGMP_Type h \<noteq> IGMPv1MembershipReport"
        "IGMP_Type h \<noteq> IGMPv2MembershipReport"
    by blast
  then show ?thesis
  proof cases
    case query
    obtain igmp' where "(case handleMembershipQuery HandleQuery (IGMP_GroupAddress h) (IGMP_MaxRespTime h)
              (count_received (\<lambda>r. r\<lparr>received_MembershipQuery := received_MembershipQuery r + 1\<rparr>) igmp) of
         Inl p \<Rightarrow> Inl p | Inr (u, igmp') \<Rightarrow> Inr (pkt, igmp')) = Inr (pkt, igmp')"
      "stats_PacketsReceived (ep igmp') =
         (stats_PacketsReceived (ep igmp))\<lparr>received_MembershipQuery :=
            received_MembershipQuery (stats_PacketsReceived (ep igmp)) + 1\<rparr>"
      using q [of "\<lambda>r. r\<lparr>received_MembershipQuery := received_MembershipQuery r + 1\<rparr>"] by blast
    with query assms(2) show ?thesis
      unfolding handleIGMP_unfold [OF assms(1)] Let_def h_def [symmetric] by simp
  next
    case v1
    obtain igmp' where "(case handleMembershipReport HandleReport (IGMP_GroupAddress h)
              (count_received (\<lambda>r. r\<lparr>received_V1MembershipReport := received_V1MembershipReport r + 1\<rparr>) igmp) of
         Inl p \<Rightarrow> Inl p | Inr (u, igmp') \<Rightarrow> Inr (pkt, igmp')) = Inr (pkt, igmp')"
      "stats_PacketsReceived (ep igmp') =
         (stats_PacketsReceived (ep igmp))\<lparr>received_V1MembershipReport :=
            received_V1MembershipReport (stats_PacketsReceived (ep igmp)) + 1\<rparr>"
      using r [of "\<lambda>r. r\<lparr>received_V1MembershipReport := received_V1MembershipReport r + 1\<rparr>"] by blast
    with v1 assms(2) show ?thesis
      unfolding handleIGMP_unfold [OF assms(1)] Let_def h_def [symmetric] by simp
  next
    case v2
    obtain igmp' where "(case handleMembershipReport HandleReport (IGMP_GroupAddress h)
              (count_received (\<lambda>r. r\<lparr>received_V2MembershipReport := received_V2MembershipReport r + 1\<rparr>) igmp) of
         Inl p \<Rightarrow> Inl p | Inr (u, igmp') \<Rightarrow> Inr (pkt, igmp')) = Inr (pkt, igmp')"
      "stats_PacketsReceived (ep igmp') =
         (stats_PacketsReceived (ep igmp))\<lparr>received_V2MembershipReport :=
            received_V2MembershipReport (stats_PacketsReceived (ep igmp)) + 1\<rparr>"
      using r [of "\<lambda>r. r\<lparr>received_V2MembershipReport := received_V2MembershipReport r + 1\<rparr>"] by blast
    with v2 assms(2) show ?thesis
      unfolding handleIGMP_unfold [OF assms(1)] Let_def h_def [symmetric] by simp
  next
    case other
    with assms(2) show ?thesis
      unfolding handleIGMP_unfold [OF assms(1)] Let_def h_def [symmetric]
      by (simp add: count_received_ChecksumErrors)
  qed
qed

lemma trailing_report_sum: "ChecksumVV [0x16, 0x00, 0x00, 0x00, 0xE1, 0x00, 0x00, 0x05, 0xAB, 0xCD] 0 = 0xA2D3"
  by (simp add: ChecksumVV_def fold_carry.simps)

lemma trailing_report_sum_of_eight: "ChecksumVV [0x16, 0x00, 0x00, 0x00, 0xE1, 0x00, 0x00, 0x05] 0 = 0xF705"
  by (simp add: ChecksumVV_def fold_carry.simps)

lemma trailing_report_field: "IGMP_Checksum [0x16, 0x00, 0x5D, 0x2C, 0xE1, 0x00, 0x00, 0x05, 0xAB, 0xCD] = 0x5D2C"
  by (simp add: IGMP_Checksum_def)

lemma v1_query_checksum:
  "NOT (ChecksumVV (IGMP_SetChecksum 0 (Data v1_query)) 0) = IGMP_Checksum (Data v1_query)"
  by (simp add: v1_query_def IGMP_SetChecksum_def IGMP_Checksum_def ChecksumVV_def
      fold_carry.simps)

lemma corrupted_query_checksum:
  "NOT (ChecksumVV (IGMP_SetChecksum 0 (Data corrupted_query)) 0) \<noteq> IGMP_Checksum (Data corrupted_query)"
  by (simp add: corrupted_query_def IGMP_SetChecksum_def IGMP_Checksum_def ChecksumVV_def
      fold_carry.simps)

lemma v1_query_received:
  "handleIGMP (eng_HandleQuery journal) (eng_HandleReport journal) v1_query (new_igmpState True []) =
     Inr (v1_query,
          count_received (\<lambda>r. r\<lparr>received_MembershipQuery := received_MembershipQuery r + 1\<rparr>)
            (new_igmpState True [])
          \<lparr>mu_igmpV1Job := \<lparr>scheduled = Some (400 * Second)\<rparr>,
           igmpV1Present := 1,
           mu_genericMulticastProtocol := [Query 0 (10 * Second)]\<rparr>)"
proof -
  have c: "8 \<le> length (Data v1_query)"
    by (simp add: v1_query_def)
  have h: "take 8 (Data v1_query) = Data v1_query"
    by (simp add: v1_query_def)
  have f: "IGMP_Type (Data v1_query) = IGMPMembershipQuery"
    "IGMP_GroupAddress (Data v1_query) = 0" "IGMP_MaxRespTime (Data v1_query) = 0"
    by (simp_all add: v1_query_def IGMP_Type_def IGMPMembershipQuery_def IGMP_GroupAddress_def
        IGMP_MaxRespTime_def DecisecondToDuration_def)
  have e: "Enabled (opts (count_received g (new_igmpState True [])))" for g
    by (simp add: count_received_def new_igmpState_simps)
  show ?thesis
    unfolding handleIGMP_unfold [OF c] Let_def h f
    by (simp add: v1_query_checksum handleMembershipQuery_unfold e journal_simps call_engine_Done
        count_received_def new_igmpState_simps Job_Schedule_def Job_Cancel_def NewJob_def
        v1RouterPresentTimeout_def v1MaxRespTime_def)
qed

text \<open>
  C4, as stated, fails: the sum is not taken over the 8-byte message but over the whole
  of the packet's data. The ten-byte packet \<open>trailing_report\<close> has a checksum field that
  does not match the sum over its first eight bytes, and yet handleIGMP counts no
  checksum error and hands the report to the engine.
\<close>
theorem handleIGMP_checksum_counterexample:
  "NOT (ChecksumVV (IGMP_SetChecksum 0 (take 8 (Data trailing_report))) 0)
     \<noteq> IGMP_Checksum (take 8 (Data trailing_report)) \<and>
   map_sum id (mu_genericMulticastProtocol \<circ> snd)
     (handleIGMP (eng_HandleQuery journal) (eng_HandleReport journal) trailing_report
        (new_igmpState True []))
     = Inr [Report 0xE1000005] \<and>
   map_sum id (received_ChecksumErrors \<circ> stats_PacketsReceived \<circ> ep \<circ> snd)
     (handleIGMP (eng_HandleQuery journal) (eng_HandleReport journal) trailing_report
        (new_igmpState True []))
     = Inr 0"
  by (simp add: trailing_report_def handleIGMP_unfold Let_def IGMP_SetChecksum_def
      trailing_report_sum trailing_report_sum_of_eight trailing_report_field
      IGMP_Checksum_def IGMP_Type_def IGMP_GroupAddress_def IGMPMembershipQuery_def
      IGMPv1MembershipReport_def IGMPv2MembershipReport_def handleMembershipReport_def
      journal_simps call_engine_Done count_received_def new_igmpState_simps new_endpoint_simps)

text \<open>
  C4, amended. A packet shorter than 8 bytes is dropped with Invalid incremented, before
  any checksum is looked at. For every packet of at least 8 bytes, handleIGMP zeroes the
  checksum field, takes the complemented ones-complement sum over the whole of the
  packet's data, restores the field (the data is again what it was) and compares with
  the stored value: on mismatch it increments ChecksumErrors and returns without calling
  the engine; on a match it goes on and ChecksumErrors stays.
\<close>
theorem handleIGMP_checksum:
  "(length (Data pkt) < 8 \<longrightarrow>
      handleIGMP HandleQuery HandleReport pkt igmp =
        Inr (pkt, count_received (\<lambda>r. r\<lparr>received_Invalid := received_Invalid r + 1\<rparr>) igmp)) \<and>
   (8 \<le> length (Data pkt) \<longrightarrow>
      IGMP_SetChecksum (IGMP_Checksum (Data pkt)) (IGMP_SetChecksum 0 (Data pkt)) = Data pkt \<and>
      (NOT (ChecksumVV (IGMP_SetChecksum 0 (Data pkt)) 0) \<noteq> IGMP_Checksum (Data pkt) \<longrightarrow>
         handleIGMP HandleQuery HandleReport pkt igmp =
           Inr (pkt, count_received
                       (\<lambda>r. r\<lparr>received_ChecksumErrors := received_ChecksumErrors r + 1\<rparr>) igmp)) \<and>
      (NOT (ChecksumVV (IGMP_SetChecksum 0 (Data pkt)) 0) = IGMP_Checksum (Data pkt) \<longrightarrow>
         (\<exists>igmp'. handleIGMP HandleQuery HandleReport pkt igmp = Inr (pkt, igmp') \<and>
            received_ChecksumErrors (stats_PacketsReceived (ep igmp')) =
              received_ChecksumErrors (stats_PacketsReceived (ep igmp)))))"
proof (intro conjI impI)
  assume "length (Data pkt) < 8"
  then show "handleIGMP HandleQuery HandleReport pkt igmp =
      Inr (pkt, count_received (\<lambda>r. r\<lparr>received_Invalid := received_Invalid r + 1\<rparr>) igmp)"
    by (simp add: handleIGMP_def PullUp_def IGMPMinimumSize_def)
next
  show "IGMP_SetChecksum (IGMP_Checksum (Data pkt)) (IGMP_SetChecksum 0 (Data pkt)) = Data pkt"
    by (rule SetChecksum_restores)
next
  assume "8 \<le> length (Data pkt)"
    and "NOT (ChecksumVV (IGMP_SetChecksum 0 (Data pkt)) 0) \<noteq> IGMP_Checksum (Data pkt)"
  then show "handleIGMP HandleQuery HandleReport pkt igmp =
      Inr (pkt, count_received
                  (\<lambda>r. r\<lparr>received_ChecksumErrors := received_ChecksumErrors r + 1\<rparr>) igmp)"
    by (simp add: handleIGMP_unfold)
next
  assume "8 \<le> length (Data pkt)"
    and "NOT (ChecksumVV (IGMP_SetChecksum 0 (Data pkt)) 0) = IGMP_Checksum (Data pkt)"
  then show "\<exists>igmp'. handleIGMP HandleQuery HandleReport pkt igmp = Inr (pkt, igmp') \<and>
      received_ChecksumErrors (stats_PacketsReceived (ep igmp')) =
        received_ChecksumErrors (stats_PacketsReceived (ep igmp))"
    by (rule handleIGMP_accepted)
qed

theorem handleIGMP_checksum_witness:
  "length (Data short_packet) < 8 \<and>
   handleIGMP (eng_HandleQuery journal) (eng_HandleReport journal) short_packet (new_igmpState True []) =
     Inr (short_packet,
          count_received (\<lambda>r. r\<lparr>received_Invalid := received_Invalid r + 1\<rparr>) (new_igmpState True [])) \<and>
   8 \<le> length (Data corrupted_query) \<and>
   NOT (ChecksumVV (IGMP_SetChecksum 0 (Data corrupted_query)) 0) \<noteq> IGMP_Checksum (Data corrupted_query) \<and>
   handleIGMP (eng_HandleQuery journal) (eng_HandleReport journal) corrupted_query (new_igmpState True []) =
     Inr (corrupted_query,
          count_received (\<lambda>r. r\<lparr>received_ChecksumErrors := received_ChecksumErrors r + 1\<rparr>)
            (new_igmpState True [])) \<and>
   8 \<le> length (Data v1_query) \<and>
   NOT (ChecksumVV (IGMP_SetChecksum 0 (Data v1_query)) 0) = IGMP_Checksum (Data v1_query) \<and>
   (\<exists>igmp'. handleIGMP (eng_HandleQuery journal) (eng_HandleReport journal) v1_query (new_igmpState True []) =
        Inr (v1_query, igmp') \<and>
      received_ChecksumErrors (stats_PacketsReceived (ep igmp')) = 0)"
proof -
  have a: "length (Data short_packet) < 8"
    by (simp add: short_packet_def)
  have b: "8 \<le> length (Data corrupted_query)"
    by (simp add: corrupted_query_def)
  have c: "8 \<le> length (Data v1_query)"
    by (simp add: v1_query_def)
  show ?thesis
    using a b c corrupted_query_checksum v1_query_checksum
      handleIGMP_checksum [of short_packet "eng_HandleQuery journal" "eng_HandleReport journal"
        "new_igmpState True []"]
      handleIGMP_checksum [of corrupted_query "eng_HandleQuery journal" "eng_HandleReport journal"
        "new_igmpState True []"]
      handleIGMP_checksum [of v1_query "eng_HandleQuery journal" "eng_HandleReport journal"
        "new_igmpState True []"]
    by (simp add: new_igmpState_simps new_endpoint_simps)
qed

section \<open>The claim about the flag and its job\<close>

text \<open>
  C6. Start from init, for any engine, endpoint and options, and let any sequence of
  events happen, each inside its own critical section: locked methods of the adapter,
  firings of its job, jobs of the engine. The run never panics, and in the state it
  ends in the v1 job is armed if and only if v1RouterPresent is true.
\<close>
theorem v1_timer_armed_iff_flag:
  "\<exists>igmp. run_events E evs (init (eng_Init E) endp options) = Inr igmp \<and>
      Job_armed (mu_igmpV1Job igmp) = v1Present igmp"
  using run_events_invariant [OF init_invariant, of E evs "eng_Init E" endp options]
  by (simp add: v1_invariant_def)

theorem v1_timer_armed_iff_flag_witness:
  "map_sum id (\<lambda>igmp. (Job_armed (mu_igmpV1Job igmp), v1Present igmp))
     (run_events journal [Receive v1_query] (init (eng_Init journal) (new_endpoint []) \<lparr>Enabled = True\<rparr>))
     = Inr (True, True) \<and>
   map_sum id (\<lambda>igmp. (Job_armed (mu_igmpV1Job igmp), v1Present igmp))
     (run_events journal [Receive v1_query, V1JobFires]
        (init (eng_Init journal) (new_endpoint []) \<lparr>Enabled = True\<rparr>))
     = Inr (False, False) \<and>
   (\<exists>igmp. run_events journal [Receive v1_query, V1JobFires]
              (init (eng_Init journal) (new_endpoint []) \<lparr>Enabled = True\<rparr>) = Inr igmp \<and>
           Job_armed (mu_igmpV1Job igmp) = v1Present igmp)"
proof -
  have r: "handleIGMP (eng_HandleQuery journal) (eng_HandleReport journal) v1_query
             (init (eng_Init journal) (new_endpoint []) \<lparr>Enabled = True\<rparr>) =
     Inr (v1_query,
          count_received (\<lambda>r. r\<lparr>received_MembershipQuery := received_MembershipQuery r + 1\<rparr>)
            (new_igmpState True [])
          \<lparr>mu_igmpV1Job := \<lparr>scheduled = Some (400 * Second)\<rparr>,
           igmpV1Present := 1,
           mu_genericMulticastProtocol := [Query 0 (10 * Second)]\<rparr>)"
    using v1_query_received by (simp add: new_igmpState_def)
  show ?thesis
    using v1_timer_armed_iff_flag [of journal "[Receive v1_query, V1JobFires]" "new_endpoint []"
        "\<lparr>Enabled = True\<rparr>"]
    by (simp add: r Job_armed_def v1Present_def igmpV1Job_fires_def setV1Present_def
        count_received_def)
qed

section \<open>The claim about leaveGroup\<close>

text \<open>
  C7. For every group address, leaveGroup over the engine's LeaveGroup returns
  ErrBadLocalAddress if the group's join count is zero and nil otherwise; it does not
  panic.
\<close>
theorem leaveGroup_result:
  "\<exists>igmp'. leaveGroup GenericMulticastProtocolState_LeaveGroup groupAddress igmp =
      Inr (if joins (mu_genericMulticastProtocol igmp) groupAddress = 0
           then Some ErrBadLocalAddress else None, igmp')"
proof (cases "mu_genericMulticastProtocol igmp groupAddress")
  case None
  then show ?thesis
    by (simp add: leaveGroup_def call_engine_def GenericMulticastProtocolState_LeaveGroup_def
        joins_def)
next
  case (Some info)
  show ?thesis
  proof (cases "state info \<noteq> NonMember \<and> lastReporter info \<and> joinCount info = 1")
    case True
    obtain err igmp1 where "SendLeave groupAddress igmp = Inr (err, igmp1)"
      using SendLeave_frame [of groupAddress igmp] by blast
    with Some True show ?thesis
      by (simp add: leaveGroup_def call_engine_def GenericMulticastProtocolState_LeaveGroup_def
          joins_def)
  next
    case False
    with Some show ?thesis
      by (auto simp: leaveGroup_def call_engine_def GenericMulticastProtocolState_LeaveGroup_def
          joins_def)
  qed
qed

theorem leaveGroup_result_witness:
  "joins (joined_once 0xE1000005) 0xE1000005 = 1 \<and>
   joins (joined_once 0xE1000005) 0xE1000006 = 0 \<and>
   (\<exists>igmp'. leaveGroup GenericMulticastProtocolState_LeaveGroup 0xE1000005
               (init (\<lambda>options. joined_once 0xE1000005) (new_endpoint []) \<lparr>Enabled = True\<rparr>)
             = Inr (None, igmp')) \<and>
   (\<exists>igmp'. leaveGroup GenericMulticastProtocolState_LeaveGroup 0xE1000006
               (init (\<lambda>options. joined_once 0xE1000005) (new_endpoint []) \<lparr>Enabled = True\<rparr>)
             = Inr (Some ErrBadLocalAddress, igmp'))"
proof -
  have a: "joins (joined_once 0xE1000005) 0xE1000005 = 1"
    and b: "joins (joined_once 0xE1000005) 0xE1000006 = 0"
    by (simp_all add: joins_def joined_once_def)
  show ?thesis
    using a b
      leaveGroup_result [of "0xE1000005"
        "init (\<lambda>options. joined_once 0xE1000005) (new_endpoint []) \<lparr>Enabled = True\<rparr>"]
      leaveGroup_result [of "0xE1000006"
        "init (\<lambda>options. joined_once 0xE1000005) (new_endpoint []) \<lparr>Enabled = True\<rparr>"]
    by (simp add: init_def)
qed

section \<open>The claim about the options serializer\<close>

lemma padIPv4OptionsLength_bounds:
  "n \<le> padIPv4OptionsLength n" "padIPv4OptionsLength n mod 4 = 0"
  by (simp_all add: padIPv4OptionsLength_def)

lemma replicate_3: "replicate 3 x = [x, x, x]"
  by (simp add: numeral_3_eq_3)

text \<open>The four cases of TestOptionsSerializer (ipv4_test.go): the buffer is filled with
  0xFF before the call.\<close>
lemma TestOptionsSerializer:
  "IPv4OptionsSerializer_Serialize [IPv4SerializableNOPOption] [0xFF, 0xFF, 0xFF, 0xFF]
     = Some (4, [1, 0, 0, 0])"
  "IPv4OptionsSerializer_Serialize [IPv4SerializableListEndOption] [0xFF, 0xFF, 0xFF, 0xFF]
     = Some (4, [0, 0, 0, 0])"
  "IPv4OptionsSerializer_Serialize [IPv4SerializableRouterAlertOption] [0xFF, 0xFF, 0xFF, 0xFF]
     = Some (4, [148, 4, 0, 0])"
  "IPv4OptionsSerializer_Serialize [IPv4SerializableNOPOption, IPv4SerializableRouterAlertOption]
     [0xFF, 0xFF, 0xFF, 0xFF, 0xFF, 0xFF, 0xFF, 0xFF] = Some (8, [1, 148, 4, 0, 0, 0, 0, 0])"
  by (simp_all add: IPv4OptionsSerializer_Serialize_def padIPv4OptionsLength_def Let_def replicate_3)

text \<open>
  C9. For every list of options, on a buffer of at least Length() bytes Serialize
  returns Length() and writes exactly that many bytes, the rest of the buffer staying;
  Length() is a multiple of 4; and [NOP, RouterAlert] has length 8 and serializes to
  01 94 04 00 00 00 00 00.
\<close>
theorem IPv4OptionsSerializer_contract:
  "(IPv4OptionsSerializer_Length s \<le> length b \<longrightarrow>
      (\<exists>written.
         IPv4OptionsSerializer_Serialize s b =
           Some (IPv4OptionsSerializer_Length s, written @ drop (IPv4OptionsSerializer_Length s) b) \<and>
         length written = IPv4OptionsSerializer_Length s)) \<and>
   IPv4OptionsSerializer_Length s mod 4 = 0 \<and>
   IPv4OptionsSerializer_Length [IPv4SerializableNOPOption, IPv4SerializableRouterAlertOption] = 8 \<and>
   IPv4OptionsSerializer_Serialize [IPv4SerializableNOPOption, IPv4SerializableRouterAlertOption]
       [0xFF, 0xFF, 0xFF, 0xFF, 0xFF, 0xFF, 0xFF, 0xFF]
     = Some (8, [0x01, 0x94, 0x04, 0x00, 0x00, 0x00, 0x00, 0x00])"
proof (intro conjI impI)
  assume fits: "IPv4OptionsSerializer_Length s \<le> length b"
  let ?content = "serializeAll s"
  let ?padded = "padIPv4OptionsLength (length ?content)"
  have "length (?content @ replicate (?padded - length ?content) 0) = ?padded"
    using padIPv4OptionsLength_bounds(1) [of "length ?content"] by simp
  moreover have "IPv4OptionsSerializer_Serialize s b =
      Some (?padded, (?content @ replicate (?padded - length ?content) 0) @ drop ?padded b)"
    using fits by (simp add: IPv4OptionsSerializer_Serialize_def IPv4OptionsSerializer_Length_def Let_def)
  ultimately show "\<exists>written.
      IPv4OptionsSerializer_Serialize s b =
        Some (IPv4OptionsSerializer_Length s, written @ drop (IPv4OptionsSerializer_Length s) b) \<and>
      length written = IPv4OptionsSerializer_Length s"
    unfolding IPv4OptionsSerializer_Length_def by blast
next
  show "IPv4OptionsSerializer_Length s mod 4 = 0"
    by (simp add: IPv4OptionsSerializer_Length_def padIPv4OptionsLength_bounds(2))
next
  show "IPv4OptionsSerializer_Length [IPv4SerializableNOPOption, IPv4SerializableRouterAlertOption] = 8"
    by (simp add: IPv4OptionsSerializer_Length_def padIPv4OptionsLength_def)
next
  show "IPv4OptionsSerializer_Serialize [IPv4SerializableNOPOption, IPv4SerializableRouterAlertOption]
       [0xFF, 0xFF, 0xFF, 0xFF, 0xFF, 0xFF, 0xFF, 0xFF]
     = Some (8, [0x01, 0x94, 0x04, 0x00, 0x00, 0x00, 0x00, 0x00])"
    by (rule TestOptionsSerializer(4))
qed

theorem IPv4OptionsSerializer_contract_witness:
  "IPv4OptionsSerializer_Length [IPv4SerializableRouterAlertOption, IPv4SerializableNOPOption] \<le>
     length [0xFF, 0xFF, 0xFF, 0xFF, 0xFF, 0xFF, 0xFF, 0xFF, 0xFF :: byte] \<and>
   (\<exists>written.
      IPv4OptionsSerializer_Serialize [IPv4SerializableRouterAlertOption, IPv4SerializableNOPOption]
          [0xFF, 0xFF, 0xFF, 0xFF, 0xFF, 0xFF, 0xFF, 0xFF, 0xFF]
        = Some (8, written @ [0xFF]) \<and> length written = 8)"
proof -
  have l: "IPv4OptionsSerializer_Length [IPv4SerializableRouterAlertOption, IPv4SerializableNOPOption] = 8"
    by (simp add: IPv4OptionsSerializer_Length_def padIPv4OptionsLength_def)
  show ?thesis
    using l
      IPv4OptionsSerializer_contract
        [of "[IPv4SerializableRouterAlertOption, IPv4SerializableNOPOption]"
          "[0xFF, 0xFF, 0xFF, 0xFF, 0xFF, 0xFF, 0xFF, 0xFF, 0xFF]"]
    by simp
qed

end
